theory Spec2Isabelle
  imports Complex_Main
begin

section \<open>ECMAScript string primitives used by the sheet\<close>

text \<open>
  Strings are modelled as \<open>string\<close> (lists of 8-bit characters); the model covers
  ASCII text. Case conversion maps the ASCII letters only, white space is the ASCII
  white space of \<open>String.prototype.trim\<close> (tab, line feed, vertical tab, form feed,
  carriage return, space), and \<open>String.fromCharCode\<close> yields the character with that
  code modulo 256 (the engine: modulo 65536).
  Integers of the program (rows, column indices, lengths) are modelled as unbounded
  \<open>nat\<close>/\<open>int\<close>: the engine's doubles are exact on them below \<open>2^53\<close>.
\<close>

definition charCode :: "char \<Rightarrow> nat" where
  "charCode c = of_char c"

definition fromCharCode :: "nat \<Rightarrow> char" where
  "fromCharCode n = char_of n"

definition isUpper :: "char \<Rightarrow> bool" where
  "isUpper c = (65 \<le> charCode c \<and> charCode c \<le> 90)"

definition isLower :: "char \<Rightarrow> bool" where
  "isLower c = (97 \<le> charCode c \<and> charCode c \<le> 122)"

definition isLetter :: "char \<Rightarrow> bool" where
  "isLetter c = (isUpper c \<or> isLower c)"

definition isDigit :: "char \<Rightarrow> bool" where
  "isDigit c = (48 \<le> charCode c \<and> charCode c \<le> 57)"

definition isWhiteSpace :: "char \<Rightarrow> bool" where
  "isWhiteSpace c = (charCode c = 32 \<or> (9 \<le> charCode c \<and> charCode c \<le> 13))"

definition toUpperCase :: "string \<Rightarrow> string" where
  "toUpperCase s = map (\<lambda>c. if isLower c then fromCharCode (charCode c - 32) else c) s"

definition toLowerCase :: "string \<Rightarrow> string" where
  "toLowerCase s = map (\<lambda>c. if isUpper c then fromCharCode (charCode c + 32) else c) s"

definition startsWith :: "string \<Rightarrow> string \<Rightarrow> bool" where
  "startsWith s p = (take (length p) s = p)"

definition substring :: "string \<Rightarrow> nat \<Rightarrow> string" where
  "substring s n = drop n s"

text \<open>\<open>s.slice(b, e)\<close>: a negative index counts from the end.\<close>

definition slice :: "string \<Rightarrow> int \<Rightarrow> int \<Rightarrow> string" where
  "slice s b e =
     (let n = int (length s);
          from = (if b < 0 then max (n + b) 0 else min b n);
          to = (if e < 0 then max (n + e) 0 else min e n)
      in take (nat (to - from)) (drop (nat from) s))"

definition trim :: "string \<Rightarrow> string" where
  "trim s = rev (dropWhile isWhiteSpace (rev (dropWhile isWhiteSpace s)))"

text \<open>\<open>s.split(sep)\<close> for a one-character separator; the result is never empty.\<close>

fun split :: "char \<Rightarrow> string \<Rightarrow> string list" where
  "split sep [] = [[]]"
| "split sep (c # cs) =
     (if c = sep then [] # split sep cs
      else (case split sep cs of [] \<Rightarrow> [[c]] | p # ps \<Rightarrow> (c # p) # ps))"

fun join :: "string \<Rightarrow> string list \<Rightarrow> string" where
  "join sep [] = []"
| "join sep [x] = x"
| "join sep (x # y # ys) = x @ sep @ join sep (y # ys)"

text \<open>\<open>parseInt\<close> on a run of decimal digits, and the decimal text of an integer.\<close>

definition parseInt :: "string \<Rightarrow> nat" where
  "parseInt ds = foldl (\<lambda>n c. 10 * n + (charCode c - 48)) 0 ds"

function numToString :: "nat \<Rightarrow> string" where
  "numToString n =
     (if n < 10 then [fromCharCode (48 + n)]
      else numToString (n div 10) @ [fromCharCode (48 + n mod 10)])"
  by pat_completeness auto
termination
  by (relation "measure id") auto

definition intToString :: "int \<Rightarrow> string" where
  "intToString i = (if i < 0 then CHR ''-'' # numToString (nat (- i)) else numToString (nat i))"

text \<open>\<open>[...new Set(values)]\<close>: the values in order of first occurrence.\<close>

definition uniqueValues :: "'a list \<Rightarrow> 'a list" where
  "uniqueValues vs = fold (\<lambda>v acc. if v \<in> set acc then acc else acc @ [v]) vs []"

text \<open>\<open>s.replace(/^["']|["']$/g, '')\<close>: one leading and one trailing quote are removed.\<close>

definition isQuote :: "char \<Rightarrow> bool" where
  "isQuote c = (c = CHR 0x22 \<or> c = CHR 0x27)"

definition stripQuotes :: "string \<Rightarrow> string" where
  "stripQuotes s =
     (let s1 = (case s of [] \<Rightarrow> [] | c # cs \<Rightarrow> if isQuote c then cs else s)
      in if s1 \<noteq> [] \<and> isQuote (last s1) then butlast s1 else s1)"

text \<open>
  \<open>value.replaceAll(search, replaceValue)\<close> with a string pattern. The replacement text
  is expanded as ECMAScript's GetSubstitution does when there are no capture groups:
  \<open>$$\<close> is a dollar sign, \<open>$&\<close> the matched text, \<open>$`\<close> the text before the match and
  \<open>$'\<close> the text after it; any other character stands for itself.
\<close>

fun getSubstitution :: "string \<Rightarrow> string \<Rightarrow> string \<Rightarrow> string \<Rightarrow> string" where
  "getSubstitution matched passed rest [] = []"
| "getSubstitution matched passed rest [c] = [c]"
| "getSubstitution matched passed rest (c # d # cs) =
     (if c = CHR ''$'' \<and> d = CHR ''$'' then CHR ''$'' # getSubstitution matched passed rest cs
      else if c = CHR ''$'' \<and> d = CHR ''&'' then matched @ getSubstitution matched passed rest cs
      else if c = CHR ''$'' \<and> d = CHR 0x60 then passed @ getSubstitution matched passed rest cs
      else if c = CHR ''$'' \<and> d = CHR 0x27 then rest @ getSubstitution matched passed rest cs
      else c # getSubstitution matched passed rest (d # cs))"

text \<open>
  The scan of \<open>replaceAll\<close>: \<open>passed\<close> is the text already scanned, \<open>skip\<close> counts the
  characters still covered by the last match. An empty pattern matches at every
  position, the end included.
\<close>

fun replaceAllFrom :: "string \<Rightarrow> string \<Rightarrow> string \<Rightarrow> nat \<Rightarrow> string \<Rightarrow> string" where
  "replaceAllFrom search repl passed skip [] =
     (if skip = 0 \<and> search = [] then getSubstitution search passed [] repl else [])"
| "replaceAllFrom search repl passed skip (c # cs) =
     (if 0 < skip then replaceAllFrom search repl (passed @ [c]) (skip - 1) cs
      else if startsWith (c # cs) search then
        getSubstitution search passed (drop (length search) (c # cs)) repl @
        (if search = [] then c # replaceAllFrom search repl (passed @ [c]) 0 cs
         else replaceAllFrom search repl (passed @ [c]) (length search - 1) cs)
      else c # replaceAllFrom search repl (passed @ [c]) 0 cs)"

definition replaceAll :: "string \<Rightarrow> string \<Rightarrow> string \<Rightarrow> string" where
  "replaceAll s search repl = replaceAllFrom search repl [] 0 s"

section \<open>Formula utilities (types/sheet.ts, second document: utils/functions)\<close>

subsection \<open>splitParameters\<close>

record split_state =
  params :: "string list"
  currentParam :: string
  inQuotes :: bool
  quoteChar :: "char option"

definition splitStep :: "char \<Rightarrow> split_state \<Rightarrow> split_state" where
  "splitStep c st =
     (if isQuote c \<and> (\<not> inQuotes st \<or> quoteChar st = Some c) then
        st\<lparr>inQuotes := \<not> inQuotes st,
           quoteChar := (if \<not> inQuotes st then Some c else quoteChar st),
           currentParam := currentParam st @ [c]\<rparr>
      else if c = CHR '','' \<and> \<not> inQuotes st then
        st\<lparr>params := params st @ [trim (currentParam st)], currentParam := []\<rparr>
      else st\<lparr>currentParam := currentParam st @ [c]\<rparr>)"

definition splitParameters :: "string \<Rightarrow> string list" where
  "splitParameters paramString =
     (let st = fold splitStep paramString
                 \<lparr>params = [], currentParam = [], inQuotes = False, quoteChar = None\<rparr>
      in if currentParam st \<noteq> [] then params st @ [trim (currentParam st)] else params st)"

subsection \<open>parseReference\<close>

datatype error = InvalidCellReference string | InvalidCellId string | RangeError

record ParsedReference =
  colIndex :: nat
  row :: nat
  colAbsolute :: bool
  rowAbsolute :: bool
  original :: string

text \<open>
  The column index is read as a plain base-26 numeral with \<open>A = 0\<close>:
  \<open>colIndex = colIndex * 26 + (colLetter.charCodeAt(i) - 65)\<close>.
\<close>

definition parseReference :: "string \<Rightarrow> error + ParsedReference" where
  "parseReference ref =
     (if ref = [] then Inl (InvalidCellReference ref)
      else
        let original = trim ref;
            colAbsolute = startsWith original ''$'';
            workingRef = (if colAbsolute then substring original 1 else original);
            colMatch = takeWhile isLetter workingRef
        in if colMatch = [] then Inl (InvalidCellReference original)
           else
             let colLetter = toUpperCase colMatch;
                 workingRef2 = substring workingRef (length colLetter);
                 rowAbsolute = startsWith workingRef2 ''$'';
                 workingRef3 = (if rowAbsolute then substring workingRef2 1 else workingRef2)
             in if workingRef3 = [] \<or> \<not> list_all isDigit workingRef3
                then Inl (InvalidCellReference original)
                else Inr \<lparr>colIndex = foldl (\<lambda>acc c. acc * 26 + (charCode c - 65)) 0 colLetter,
                          row = parseInt workingRef3,
                          colAbsolute = colAbsolute,
                          rowAbsolute = rowAbsolute,
                          original = original\<rparr>)"

subsection \<open>normalizeReference and parseRange\<close>

definition normalizeReference :: "string \<Rightarrow> string option \<Rightarrow> string" where
  "normalizeReference ref currentCell =
     (if currentCell = None \<or> currentCell = Some [] \<or> CHR ''$'' \<in> set ref
      then filter (\<lambda>c. c \<noteq> CHR ''$'') ref
      else ref)"

text \<open>
  The two nested \<open>for\<close> statements run from the start corner to the end corner, column by
  column; they run zero times when the start lies behind the end. An exception of
  \<open>parseReference\<close> is caught and gives the empty list. The list of cells is
  unbounded here: the engine's limits on memory and on the length of an array, which a
  range of some hundred million cells meets, are outside the model.
\<close>

definition rangeCells :: "ParsedReference \<Rightarrow> ParsedReference \<Rightarrow> string list" where
  "rangeCells startRef endRef =
     concat (map (\<lambda>col. map (\<lambda>r. fromCharCode (65 + col) # numToString r)
                              [row startRef ..< Suc (row endRef)])
                 [colIndex startRef ..< Suc (colIndex endRef)])"

definition parseRange :: "string \<Rightarrow> string option \<Rightarrow> string list" where
  "parseRange rangeText currentCell =
     (if rangeText = [] \<or> trim rangeText = [] then []
      else
        (case split CHR '':'' rangeText of
           [] \<Rightarrow> []
         | p0 # rest \<Rightarrow>
             let start = trim p0;
                 endp = (case rest of [] \<Rightarrow> start | p1 # _ \<Rightarrow> trim p1)
             in if endp = [] then [normalizeReference start currentCell]
                else
                  (case parseReference start of
                     Inl _ \<Rightarrow> []
                   | Inr startRef \<Rightarrow>
                       (case parseReference endp of
                          Inl _ \<Rightarrow> []
                        | Inr endRef \<Rightarrow> rangeCells startRef endRef))))"

subsection \<open>evaluateFormula\<close>

text \<open>
  The numeric functions go through the engine's double-precision numbers. Their
  primitives are a parameter of the evaluator: \<open>Number(v)\<close>, \<open>isNaN\<close>, \<open>+\<close>, \<open>/\<close>,
  the number of a non-negative integer (the literal \<open>0\<close>, \<open>values.length\<close>),
  \<open>Math.max(...)\<close>, \<open>Math.min(...)\<close> and \<open>toString()\<close>.
  \<open>Math.max(...values.map(Number))\<close> and \<open>Math.min(...)\<close> pass all operands as the
  arguments of one call, and an engine throws a \<open>RangeError\<close> (its call stack is
  exceeded) when there are too many of them: these two primitives answer an error or a
  number. \<open>evaluateFormula\<close> does not catch that error, so its result is an error or
  the text it returns.
\<close>

record 'n js_number =
  Number :: "string \<Rightarrow> 'n"
  isNaN :: "'n \<Rightarrow> bool"
  addNum :: "'n \<Rightarrow> 'n \<Rightarrow> 'n"
  divNum :: "'n \<Rightarrow> 'n \<Rightarrow> 'n"
  ofNat :: "nat \<Rightarrow> 'n"
  Math_max :: "'n list \<Rightarrow> error + 'n"
  Math_min :: "'n list \<Rightarrow> error + 'n"
  toString :: "'n \<Rightarrow> string"

definition numericValues :: "'n js_number \<Rightarrow> (string \<Rightarrow> string) \<Rightarrow> string list \<Rightarrow> string list" where
  "numericValues J getCellValue cellRange =
     filter (\<lambda>v. \<not> isNaN J (Number J v)) (map getCellValue cellRange)"

definition sumValues :: "'n js_number \<Rightarrow> string list \<Rightarrow> 'n" where
  "sumValues J values = foldl (\<lambda>sum val. addNum J sum (Number J val)) (ofNat J 0) values"

text \<open>
  The \<open>try\<close> of the FIND_AND_REPLACE branch has no failing callee in this model
  (\<open>parseRange\<close> catches its own exceptions, the lookup is a total function), so its
  \<open>catch\<close> branch, which returns \<open>#ERROR: Invalid FIND_AND_REPLACE syntax\<close>, is not
  reached.
\<close>

definition evaluateFormula ::
    "'n js_number \<Rightarrow> string \<Rightarrow> (string \<Rightarrow> string) \<Rightarrow> error + string" where
  "evaluateFormula J formula getCellValue =
     (if \<not> startsWith formula ''='' then Inr formula
      else
        let cleanFormula = toUpperCase (substring formula 1) in
        if startsWith cleanFormula ''SUM('' then
          Inr (toString J (sumValues J
            (numericValues J getCellValue (parseRange (slice cleanFormula 4 (- 1)) None))))
        else if startsWith cleanFormula ''AVERAGE('' then
          (let values = numericValues J getCellValue (parseRange (slice cleanFormula 8 (- 1)) None)
           in Inr (toString J (divNum J (sumValues J values) (ofNat J (length values)))))
        else if startsWith cleanFormula ''MAX('' then
          (case Math_max J (map (Number J)
                  (numericValues J getCellValue (parseRange (slice cleanFormula 4 (- 1)) None))) of
             Inl e \<Rightarrow> Inl e
           | Inr m \<Rightarrow> Inr (toString J m))
        else if startsWith cleanFormula ''MIN('' then
          (case Math_min J (map (Number J)
                  (numericValues J getCellValue (parseRange (slice cleanFormula 4 (- 1)) None))) of
             Inl e \<Rightarrow> Inl e
           | Inr m \<Rightarrow> Inr (toString J m))
        else if startsWith cleanFormula ''COUNT('' then
          Inr (numToString (length
            (numericValues J getCellValue (parseRange (slice cleanFormula 6 (- 1)) None))))
        else if startsWith cleanFormula ''TRIM('' then
          Inr (trim (getCellValue (slice cleanFormula 5 (- 1))))
        else if startsWith cleanFormula ''UPPER('' then
          Inr (toUpperCase (getCellValue (slice cleanFormula 6 (- 1))))
        else if startsWith cleanFormula ''LOWER('' then
          Inr (toLowerCase (getCellValue (slice cleanFormula 6 (- 1))))
        else if startsWith cleanFormula ''REMOVE_DUPLICATES('' then
          Inr (join '', '' (uniqueValues
            (map getCellValue (parseRange (slice cleanFormula 17 (- 1)) None))))
        else if startsWith cleanFormula ''FIND_AND_REPLACE('' then
          (case splitParameters (slice cleanFormula 16 (- 1)) of
             [rangeStr, findText, replaceText] \<Rightarrow>
               let cleanFindText = stripQuotes findText;
                   cleanReplaceText = stripQuotes replaceText
               in Inr (join '', ''
                    (map (\<lambda>v. replaceAll v cleanFindText cleanReplaceText)
                         (map getCellValue (parseRange rangeStr None))))
           | _ \<Rightarrow> Inr ''#ERROR: Expected 3 parameters (range, find_text, replace_text)'')
        else Inr formula)"

section \<open>A model of the engine's numbers\<close>

text \<open>
  An instance of the numeric primitives for evaluating formulas on concrete sheets.
  A finite double is represented by the rational it denotes, so arithmetic on finite
  values is exact here where the engine rounds, negative zero is not told from zero,
  and \<open>toString\<close> prints the exact decimal expansion (cut after 20 fraction digits)
  where the engine prints the shortest digits that round-trip. The instance agrees with
  the engine on \<open>NaN\<close>, on the infinities and on integers below \<open>2^53\<close>.
  \<open>Number(v)\<close> follows ECMAScript's StringToNumber: surrounding white space is
  dropped, the empty text is \<open>0\<close>, then a signed decimal literal (with optional
  fraction and exponent), \<open>Infinity\<close>, or an unsigned \<open>0x\<close>, \<open>0o\<close>, \<open>0b\<close> literal.
  The number of arguments from which a call is rejected differs between engines and
  with the depth of the stack (from some tens of thousands to some hundreds of
  thousands); the instance takes it as 100000.
\<close>

datatype jsnum = NaN | PosInfinity | NegInfinity | Finite rat

definition digitValue :: "char \<Rightarrow> nat" where
  "digitValue c =
     (if isDigit c then charCode c - 48
      else if 97 \<le> charCode c \<and> charCode c \<le> 102 then charCode c - 87
      else if 65 \<le> charCode c \<and> charCode c \<le> 70 then charCode c - 55
      else 36)"

definition parseRadix :: "nat \<Rightarrow> string \<Rightarrow> jsnum" where
  "parseRadix b ds =
     (if ds \<noteq> [] \<and> list_all (\<lambda>c. digitValue c < b) ds
      then Finite (of_nat (foldl (\<lambda>n c. b * n + digitValue c) 0 ds))
      else NaN)"

definition parseExponent :: "string \<Rightarrow> int option" where
  "parseExponent s =
     (case s of
        [] \<Rightarrow> Some 0
      | c # cs \<Rightarrow>
          if c = CHR ''e'' \<or> c = CHR ''E'' then
            (let neg = startsWith cs ''-'';
                 ds = (if startsWith cs ''-'' \<or> startsWith cs ''+'' then drop 1 cs else cs)
             in if ds \<noteq> [] \<and> list_all isDigit ds
                then Some (if neg then - int (parseInt ds) else int (parseInt ds))
                else None)
          else None)"

definition parseDecimal :: "string \<Rightarrow> rat option" where
  "parseDecimal s =
     (let ip = takeWhile isDigit s;
          r1 = dropWhile isDigit s;
          hasDot = startsWith r1 ''.'';
          fp = (if hasDot then takeWhile isDigit (drop 1 r1) else []);
          r2 = (if hasDot then dropWhile isDigit (drop 1 r1) else r1)
      in if ip = [] \<and> fp = [] then None
         else
           (case parseExponent r2 of
              None \<Rightarrow> None
            | Some e \<Rightarrow>
                let m = of_nat (parseInt (ip @ fp)); e' = e - int (length fp)
                in Some (if 0 \<le> e' then m * 10 ^ nat e' else m / 10 ^ nat (- e'))))"

definition StringToNumber :: "string \<Rightarrow> jsnum" where
  "StringToNumber str =
     (let s = trim str in
      if s = [] then Finite 0
      else if startsWith s ''0x'' \<or> startsWith s ''0X'' then parseRadix 16 (drop 2 s)
      else if startsWith s ''0o'' \<or> startsWith s ''0O'' then parseRadix 8 (drop 2 s)
      else if startsWith s ''0b'' \<or> startsWith s ''0B'' then parseRadix 2 (drop 2 s)
      else
        let neg = startsWith s ''-'';
            body = (if startsWith s ''-'' \<or> startsWith s ''+'' then drop 1 s else s)
        in if body = ''Infinity'' then (if neg then NegInfinity else PosInfinity)
           else (case parseDecimal body of
                   None \<Rightarrow> NaN
                 | Some q \<Rightarrow> Finite (if neg then - q else q)))"

fun jsAdd :: "jsnum \<Rightarrow> jsnum \<Rightarrow> jsnum" where
  "jsAdd (Finite a) (Finite b) = Finite (a + b)"
| "jsAdd NaN y = NaN"
| "jsAdd x NaN = NaN"
| "jsAdd PosInfinity NegInfinity = NaN"
| "jsAdd NegInfinity PosInfinity = NaN"
| "jsAdd PosInfinity y = PosInfinity"
| "jsAdd NegInfinity y = NegInfinity"
| "jsAdd (Finite a) y = y"

fun jsDiv :: "jsnum \<Rightarrow> jsnum \<Rightarrow> jsnum" where
  "jsDiv (Finite a) (Finite b) =
     (if b = 0 then (if a = 0 then NaN else if 0 < a then PosInfinity else NegInfinity)
      else Finite (a / b))"
| "jsDiv NaN y = NaN"
| "jsDiv x NaN = NaN"
| "jsDiv (Finite a) y = Finite 0"
| "jsDiv PosInfinity (Finite b) = (if b < 0 then NegInfinity else PosInfinity)"
| "jsDiv NegInfinity (Finite b) = (if b < 0 then PosInfinity else NegInfinity)"
| "jsDiv x y = NaN"

fun jsMax2 :: "jsnum \<Rightarrow> jsnum \<Rightarrow> jsnum" where
  "jsMax2 (Finite a) (Finite b) = Finite (max a b)"
| "jsMax2 NaN y = NaN"
| "jsMax2 x NaN = NaN"
| "jsMax2 PosInfinity y = PosInfinity"
| "jsMax2 x PosInfinity = PosInfinity"
| "jsMax2 NegInfinity y = y"
| "jsMax2 x NegInfinity = x"

fun jsMin2 :: "jsnum \<Rightarrow> jsnum \<Rightarrow> jsnum" where
  "jsMin2 (Finite a) (Finite b) = Finite (min a b)"
| "jsMin2 NaN y = NaN"
| "jsMin2 x NaN = NaN"
| "jsMin2 NegInfinity y = NegInfinity"
| "jsMin2 x NegInfinity = NegInfinity"
| "jsMin2 PosInfinity y = y"
| "jsMin2 x PosInfinity = x"

fun fractionDigits :: "nat \<Rightarrow> rat \<Rightarrow> string" where
  "fractionDigits 0 r = []"
| "fractionDigits (Suc k) r =
     (if r = 0 then []
      else let d = nat \<lfloor>r * 10\<rfloor> in fromCharCode (48 + d) # fractionDigits k (r * 10 - of_nat d))"

fun jsToString :: "jsnum \<Rightarrow> string" where
  "jsToString NaN = ''NaN''"
| "jsToString PosInfinity = ''Infinity''"
| "jsToString NegInfinity = ''-Infinity''"
| "jsToString (Finite q) =
     (let a = \<bar>q\<bar>; ip = nat \<lfloor>a\<rfloor>; ds = fractionDigits 20 (a - of_nat ip)
      in (if q < 0 then ''-'' else []) @ numToString ip @ (if ds = [] then [] else CHR ''.'' # ds))"

definition spreadLimit :: int where
  "spreadLimit = 100000"

definition jsNumber :: "jsnum js_number" where
  "jsNumber =
     \<lparr>Number = StringToNumber,
      isNaN = (\<lambda>n. n = NaN),
      addNum = jsAdd,
      divNum = jsDiv,
      ofNat = (\<lambda>n. Finite (of_nat n)),
      Math_max = (\<lambda>xs. if spreadLimit < int (length xs) then Inl RangeError
                       else Inr (foldl jsMax2 NegInfinity xs)),
      Math_min = (\<lambda>xs. if spreadLimit < int (length xs) then Inl RangeError
                       else Inr (foldl jsMin2 PosInfinity xs)),
      toString = jsToString\<rparr>"

section \<open>The sheet store (store/sheetStore)\<close>

subsection \<open>Data\<close>

text \<open>
  The fields of \<open>CellData\<close> carry the prefix \<open>cell_\<close> (\<open>value\<close> and \<open>id\<close> are taken in
  Isabelle), those of \<open>HistoryState\<close> the prefix \<open>h_\<close> and those of \<open>ClipboardData\<close>
  the prefix \<open>clip_\<close>. The \<open>cells\<close> object of the store is a map from cell ids to
  cells. The \<open>cells\<close> object of the clipboard is kept as the list of its entries in
  insertion order, the order in which \<open>Object.entries\<close> lists keys that are not array
  indices. An entry of the clipboard's \<open>data\<close> array is the pair of its \<open>id\<close> and the
  cell.
\<close>

record CellStyle =
  bold :: bool
  italic :: bool
  fontSize :: int
  color :: string

record CellData =
  cell_id :: "string option"
  cell_value :: string
  cell_formula :: string
  cell_style :: CellStyle

record PartialCellData =
  p_id :: "string option"
  p_value :: "string option"
  p_formula :: "string option"
  p_style :: "CellStyle option"

datatype ClipboardType = Copy | Cut

record ClipboardData =
  clip_type :: "ClipboardType option"
  clip_data :: "(string \<times> CellData) list option"
  clip_cells :: "(string \<times> CellData) list"
  topLeft :: string
  bottomRight :: string

record HistoryState =
  h_cells :: "string \<rightharpoonup> CellData"
  h_rows :: int
  h_cols :: int

record SheetState =
  cells :: "string \<rightharpoonup> CellData"
  selectedCell :: "string option"
  selectedCells :: "string list"
  rows :: int
  cols :: int
  isDragging :: bool
  dragStart :: "string option"
  dragStartCell :: "string option"
  clipboard :: "ClipboardData option"
  history :: "HistoryState list"
  historyIndex :: int

definition DEFAULT_ROWS :: int where
  "DEFAULT_ROWS = 100"

definition DEFAULT_COLS :: int where
  "DEFAULT_COLS = 26"

definition MAX_HISTORY :: nat where
  "MAX_HISTORY = 50"

definition defaultStyle :: CellStyle where
  "defaultStyle = \<lparr>bold = False, italic = False, fontSize = 14, color = ''#000000''\<rparr>"

definition createEmptyCell :: CellData where
  "createEmptyCell =
     \<lparr>cell_id = None, cell_value = [], cell_formula = [], cell_style = defaultStyle\<rparr>"

definition initialState :: SheetState where
  "initialState =
     \<lparr>cells = Map.empty, selectedCell = None, selectedCells = [],
      rows = DEFAULT_ROWS, cols = DEFAULT_COLS,
      isDragging = False, dragStart = None, dragStartCell = None,
      clipboard = None, history = [], historyIndex = - 1\<rparr>"

text \<open>\<open>{...cell, ...data}\<close>: the fields that \<open>data\<close> has replace those of the cell.\<close>

definition mergeCell :: "CellData \<Rightarrow> PartialCellData \<Rightarrow> CellData" where
  "mergeCell c d =
     \<lparr>cell_id = (case p_id d of None \<Rightarrow> cell_id c | Some i \<Rightarrow> Some i),
      cell_value = (case p_value d of None \<Rightarrow> cell_value c | Some v \<Rightarrow> v),
      cell_formula = (case p_formula d of None \<Rightarrow> cell_formula c | Some f \<Rightarrow> f),
      cell_style = (case p_style d of None \<Rightarrow> cell_style c | Some t \<Rightarrow> t)\<rparr>"

text \<open>\<open>state.cells[id] || createEmptyCell()\<close>.\<close>

definition cellOrEmpty :: "(string \<rightharpoonup> CellData) \<Rightarrow> string \<Rightarrow> CellData" where
  "cellOrEmpty cs i = (case cs i of None \<Rightarrow> createEmptyCell | Some c \<Rightarrow> c)"

text \<open>\<open>obj[key] = v\<close> on an object kept as its list of entries.\<close>

fun objectSet :: "string \<Rightarrow> 'v \<Rightarrow> (string \<times> 'v) list \<Rightarrow> (string \<times> 'v) list" where
  "objectSet k v [] = [(k, v)]"
| "objectSet k v (e # es) = (if fst e = k then (k, v) # es else e # objectSet k v es)"

subsection \<open>Cell ids and column letters\<close>

text \<open>
  \<open>cellId.match(/[A-Z]+/)?.[0] || ''\<close> is the first run of capital letters, and
  \<open>parseInt(cellId.match(/\d+/)?.[0] || '0')\<close> the number of the first run of digits.
\<close>

definition matchUpper :: "string \<Rightarrow> string" where
  "matchUpper s = takeWhile isUpper (dropWhile (\<lambda>c. \<not> isUpper c) s)"

definition matchDigits :: "string \<Rightarrow> string" where
  "matchDigits s = takeWhile isDigit (dropWhile (\<lambda>c. \<not> isDigit c) s)"

definition cellRow :: "string \<Rightarrow> int" where
  "cellRow s = (let m = matchDigits s in int (parseInt (if m = [] then ''0'' else m)))"

definition columnLetterToIndex :: "string \<Rightarrow> int" where
  "columnLetterToIndex col = foldl (\<lambda>result c. result * 26 + (int (charCode c) - 64)) 0 col - 1"

definition cellCol :: "string \<Rightarrow> int" where
  "cellCol s = columnLetterToIndex (matchUpper s)"

text \<open>The \<open>while (index > 0)\<close> loop of \<open>indexToColumnLetter\<close>, entered after \<open>index++\<close>.\<close>

function columnLetters :: "int \<Rightarrow> string \<Rightarrow> string" where
  "columnLetters index letter =
     (if 0 < index
      then columnLetters ((index - 1) div 26) (fromCharCode (65 + nat ((index - 1) mod 26)) # letter)
      else letter)"
  by pat_completeness auto
termination
  by (relation "measure (\<lambda>(index, letter). nat index)") auto

definition indexToColumnLetter :: "int \<Rightarrow> string" where
  "indexToColumnLetter index = columnLetters (index + 1) []"

definition createCellId :: "int \<Rightarrow> int \<Rightarrow> string" where
  "createCellId r col = indexToColumnLetter col @ intToString r"

definition parseCellId :: "string \<Rightarrow> error + (int \<times> string)" where
  "parseCellId cellId =
     (if matchUpper cellId = [] \<or> matchDigits cellId = [] then Inl (InvalidCellId cellId)
      else Inr (int (parseInt (matchDigits cellId)), matchUpper cellId))"

text \<open>
  \<open>getTopLeftCell\<close> starts its minima at \<open>Infinity\<close>; on an empty selection it calls
  \<open>indexToColumnLetter(Infinity)\<close>, whose loop does not end. The store calls it on
  non-empty selections only; \<open>None\<close> stands for the call that does not return.
\<close>

definition getTopLeftCell :: "string list \<Rightarrow> string option" where
  "getTopLeftCell cs =
     (case cs of
        [] \<Rightarrow> None
      | c # cs' \<Rightarrow>
          Some (indexToColumnLetter (fold (\<lambda>cellId m. min m (cellCol cellId)) cs' (cellCol c)) @
                intToString (fold (\<lambda>cellId m. min m (cellRow cellId)) cs' (cellRow c))))"

definition getBottomRightCell :: "string list \<Rightarrow> string" where
  "getBottomRightCell cs =
     indexToColumnLetter (fold (\<lambda>cellId m. max m (cellCol cellId)) cs (- 1)) @
     intToString (fold (\<lambda>cellId m. max m (cellRow cellId)) cs (- 1))"

definition getSelectionBetween :: "string \<Rightarrow> string \<Rightarrow> string list" where
  "getSelectionBetween start endp =
     (let minCol = min (cellCol start) (cellCol endp);
          maxCol = max (cellCol start) (cellCol endp);
          minRow = min (cellRow start) (cellRow endp);
          maxRow = max (cellRow start) (cellRow endp)
      in concat (map (\<lambda>r. map (\<lambda>colIdx. indexToColumnLetter colIdx @ intToString r)
                               [minCol..maxCol])
                     [minRow..maxRow]))"

subsection \<open>History\<close>

text \<open>\<open>history.slice(0, e)\<close>: a negative end counts from the end of the array.\<close>

definition sliceTo :: "'a list \<Rightarrow> int \<Rightarrow> 'a list" where
  "sliceTo xs e =
     (let n = int (length xs) in take (nat (if e < 0 then max (n + e) 0 else min e n)) xs)"

definition snapshot :: "SheetState \<Rightarrow> HistoryState" where
  "snapshot st = \<lparr>h_cells = cells st, h_rows = rows st, h_cols = cols st\<rparr>"

definition saveState :: "SheetState \<Rightarrow> SheetState" where
  "saveState st =
     (let currentState = snapshot st;
          pushed = (if historyIndex st < int (length (history st)) - 1
                    then sliceTo (history st) (historyIndex st + 1)
                    else history st) @ [currentState];
          newHistory = (if MAX_HISTORY < length pushed then tl pushed else pushed)
      in st\<lparr>history := newHistory, historyIndex := int (length newHistory) - 1\<rparr>)"

text \<open>
  \<open>undo\<close> and \<open>redo\<close> read \<open>state.history[newIndex]\<close>. Were the index outside the
  array, reading \<open>.cells\<close> of \<open>undefined\<close> would throw before \<open>set\<close> is called; the
  store is then left as it was.
\<close>

definition restore :: "SheetState \<Rightarrow> int \<Rightarrow> SheetState" where
  "restore st newIndex =
     (if 0 \<le> newIndex \<and> newIndex < int (length (history st)) then
        (let entry = history st ! nat newIndex
         in st\<lparr>cells := h_cells entry, rows := h_rows entry, cols := h_cols entry,
               historyIndex := newIndex\<rparr>)
      else st)"

definition undo :: "SheetState \<Rightarrow> SheetState" where
  "undo st = (if historyIndex st \<le> 0 then st else restore st (historyIndex st - 1))"

definition redo :: "SheetState \<Rightarrow> SheetState" where
  "redo st =
     (if int (length (history st)) - 1 \<le> historyIndex st then st
      else restore st (historyIndex st + 1))"

subsection \<open>Rows, columns and cells\<close>

definition addRow :: "SheetState \<Rightarrow> SheetState" where
  "addRow st = (let s1 = saveState st in s1\<lparr>rows := rows s1 + 1\<rparr>)"

definition deleteRow :: "SheetState \<Rightarrow> SheetState" where
  "deleteRow st = (let s1 = saveState st in s1\<lparr>rows := max 1 (rows s1 - 1)\<rparr>)"

definition addColumn :: "SheetState \<Rightarrow> SheetState" where
  "addColumn st = (let s1 = saveState st in s1\<lparr>cols := cols s1 + 1\<rparr>)"

definition deleteColumn :: "SheetState \<Rightarrow> SheetState" where
  "deleteColumn st = (let s1 = saveState st in s1\<lparr>cols := max 1 (cols s1 - 1)\<rparr>)"

definition updateCell :: "string \<Rightarrow> PartialCellData \<Rightarrow> SheetState \<Rightarrow> SheetState" where
  "updateCell i d st =
     (let s1 = saveState st
      in s1\<lparr>cells := (cells s1)(i \<mapsto> mergeCell (cellOrEmpty (cells s1) i) d)\<rparr>)"

subsection \<open>Selection and drag\<close>

definition setSelectedCell :: "string option \<Rightarrow> SheetState \<Rightarrow> SheetState" where
  "setSelectedCell i st = st\<lparr>selectedCell := i\<rparr>"

definition setSelectedCells :: "string list \<Rightarrow> SheetState \<Rightarrow> SheetState" where
  "setSelectedCells ids st = st\<lparr>selectedCells := ids\<rparr>"

definition startDrag :: "string \<Rightarrow> SheetState \<Rightarrow> SheetState" where
  "startDrag cellId st =
     st\<lparr>isDragging := True, dragStart := Some cellId, dragStartCell := Some cellId,
        selectedCells := [cellId]\<rparr>"

definition handleDrag :: "string \<Rightarrow> SheetState \<Rightarrow> SheetState" where
  "handleDrag cellId st =
     (case dragStart st of
        None \<Rightarrow> st
      | Some d \<Rightarrow>
          if \<not> isDragging st \<or> d = [] then st
          else st\<lparr>selectedCells := getSelectionBetween d cellId\<rparr>)"

definition endDrag :: "SheetState \<Rightarrow> SheetState" where
  "endDrag st = st\<lparr>isDragging := False\<rparr>"

subsection \<open>Clipboard\<close>

text \<open>
  \<open>copySelectedCells\<close> snapshots the selected cells that exist in the store
  (\<open>if (state.cells[cellId])\<close>). The text it also writes to the system clipboard is not
  part of the store.
\<close>

definition copySelectedCells :: "SheetState \<Rightarrow> SheetState" where
  "copySelectedCells st =
     (case getTopLeftCell (selectedCells st) of
        None \<Rightarrow> st
      | Some corner \<Rightarrow>
          st\<lparr>clipboard := Some
               \<lparr>clip_type = None, clip_data = None,
                clip_cells = fold (\<lambda>cellId acc. case cells st cellId of
                                                  None \<Rightarrow> acc
                                                | Some c \<Rightarrow> objectSet cellId c acc)
                                  (selectedCells st) [],
                topLeft = corner,
                bottomRight = getBottomRightCell (selectedCells st)\<rparr>\<rparr>)"

text \<open>One round of the \<open>forEach\<close> of \<open>pasteCells\<close> over the entries of the snapshot.\<close>

definition pasteEntry :: "int \<Rightarrow> int \<Rightarrow> int \<Rightarrow> int \<Rightarrow> string \<times> CellData \<Rightarrow>
    (string \<rightharpoonup> CellData) \<Rightarrow> (string \<rightharpoonup> CellData)" where
  "pasteEntry nCols nRows colOffset rowOffset entry newCells =
     (let cellId = fst entry; cellData = snd entry;
          newColIndex = cellCol cellId + colOffset;
          newRow = cellRow cellId + rowOffset
      in if newColIndex < 0 \<or> nCols \<le> newColIndex \<or> newRow \<le> 0 \<or> nRows < newRow then newCells
         else newCells(indexToColumnLetter newColIndex @ intToString newRow \<mapsto>
                (if cell_formula cellData \<noteq> []
                 then cellData\<lparr>cell_formula := cell_formula cellData\<rparr>
                 else cellData)))"

definition pasteCells :: "string \<Rightarrow> SheetState \<Rightarrow> SheetState" where
  "pasteCells targetCellId st =
     (let s1 = saveState st in
      case clipboard s1 of
        None \<Rightarrow> s1
      | Some cb \<Rightarrow>
          let colOffset = cellCol targetCellId - cellCol (topLeft cb);
              rowOffset = cellRow targetCellId - cellRow (topLeft cb)
          in s1\<lparr>cells := fold (pasteEntry (cols s1) (rows s1) colOffset rowOffset)
                               (clip_cells cb) (cells s1)\<rparr>)"

text \<open>
  The enhanced clipboard: \<open>{ id: cellId, ...cell }\<close> keeps the cell's own \<open>id\<close> when it
  has one.
\<close>

definition clipboardEntry :: "(string \<rightharpoonup> CellData) \<Rightarrow> string \<Rightarrow> string \<times> CellData" where
  "clipboardEntry cs cellId =
     (let c = cellOrEmpty cs cellId
      in (case cell_id c of None \<Rightarrow> cellId | Some i \<Rightarrow> i, c))"

definition selectionClipboard :: "ClipboardType \<Rightarrow> SheetState \<Rightarrow> string \<Rightarrow> ClipboardData" where
  "selectionClipboard t st corner =
     \<lparr>clip_type = Some t,
      clip_data = Some (map (clipboardEntry (cells st)) (selectedCells st)),
      clip_cells = fold (\<lambda>cellId acc. objectSet cellId (cellOrEmpty (cells st) cellId) acc)
                        (selectedCells st) [],
      topLeft = corner,
      bottomRight = getBottomRightCell (selectedCells st)\<rparr>"

definition copySelection :: "SheetState \<Rightarrow> SheetState" where
  "copySelection st =
     (case getTopLeftCell (selectedCells st) of
        None \<Rightarrow> st
      | Some corner \<Rightarrow> st\<lparr>clipboard := Some (selectionClipboard Copy st corner)\<rparr>)"

definition cutSelection :: "SheetState \<Rightarrow> SheetState" where
  "cutSelection st =
     (let s1 = saveState st in
      case getTopLeftCell (selectedCells s1) of
        None \<Rightarrow> s1
      | Some corner \<Rightarrow>
          s1\<lparr>clipboard := Some (selectionClipboard Cut s1 corner),
             cells := fold (\<lambda>cellId m. m(cellId \<mapsto> createEmptyCell)) (selectedCells s1) (cells s1)\<rparr>)"

text \<open>
  \<open>calculatePasteOffset\<close> and the loop of \<open>pasteSelection\<close> call \<open>parseCellId\<close>, which
  throws on an id without capital letters or without digits.
\<close>

fun parseCellIds :: "string list \<Rightarrow> error + (int \<times> string) list" where
  "parseCellIds [] = Inr []"
| "parseCellIds (i # is) =
     (case parseCellId i of
        Inl e \<Rightarrow> Inl e
      | Inr p \<Rightarrow> (case parseCellIds is of Inl e \<Rightarrow> Inl e | Inr ps \<Rightarrow> Inr (p # ps)))"

definition calculatePasteOffset :: "string list \<Rightarrow> string \<Rightarrow> error + (int \<times> int)" where
  "calculatePasteOffset sourceCellIds targetCellId =
     (if sourceCellIds = [] then Inr (0, 0)
      else
        (case parseCellIds sourceCellIds of
           Inl e \<Rightarrow> Inl e
         | Inr ps \<Rightarrow>
             (case parseCellId targetCellId of
                Inl e \<Rightarrow> Inl e
              | Inr (targetRow, targetCol) \<Rightarrow>
                  let minSourceRow = fold min (map fst (tl ps)) (fst (hd ps));
                      minSourceCol = fold min (map (\<lambda>p. columnLetterToIndex (snd p)) (tl ps))
                                       (columnLetterToIndex (snd (hd ps)))
                  in Inr (targetRow - minSourceRow, columnLetterToIndex targetCol - minSourceCol))))"

text \<open>
  In the loop, \<open>col\<close> is the column's letters and \<open>colOffset\<close> a number, so
  \<open>col + colOffset\<close> is the letters followed by the digits of the offset, and
  \<open>createCellId\<close> appends the row to that text.
\<close>

definition pastedCell :: "CellData \<Rightarrow> CellData" where
  "pastedCell c =
     \<lparr>cell_id = None, cell_value = cell_value c, cell_formula = cell_formula c,
      cell_style = cell_style c\<rparr>"

fun pasteData :: "int \<Rightarrow> int \<Rightarrow> (string \<times> CellData) list \<Rightarrow> (string \<rightharpoonup> CellData) \<Rightarrow>
    error + (string \<rightharpoonup> CellData)" where
  "pasteData rowOffset colOffset [] newCells = Inr newCells"
| "pasteData rowOffset colOffset (e # es) newCells =
     (case parseCellId (fst e) of
        Inl err \<Rightarrow> Inl err
      | Inr (r, col) \<Rightarrow>
          pasteData rowOffset colOffset es
            (newCells((col @ intToString colOffset) @ intToString (r + rowOffset) \<mapsto>
               pastedCell (snd e))))"

text \<open>
  The store after \<open>pasteSelection\<close>; when \<open>parseCellId\<close> throws, no further \<open>set\<close>
  happens and the store is the one \<open>saveState\<close> left.
\<close>

definition pasteSelection :: "SheetState \<Rightarrow> SheetState" where
  "pasteSelection st =
     (let s1 = saveState st in
      case clipboard s1 of
        None \<Rightarrow> s1
      | Some cb \<Rightarrow>
          (case selectedCell s1 of
             None \<Rightarrow> s1
           | Some target \<Rightarrow>
               if target = [] then s1
               else
                 (case clip_data cb of
                    None \<Rightarrow> pasteCells target s1
                  | Some entries \<Rightarrow>
                      if entries = [] then s1
                      else if length entries = 1 \<and> 1 < length (selectedCells s1) then
                        s1\<lparr>cells := fold (\<lambda>cellId m. m(cellId \<mapsto> pastedCell (snd (hd entries))))
                                        (selectedCells s1) (cells s1)\<rparr>
                      else
                        (case calculatePasteOffset (map fst entries) target of
                           Inl err \<Rightarrow> s1
                         | Inr (rowOffset, colOffset) \<Rightarrow>
                             (case pasteData rowOffset colOffset entries (cells s1) of
                                Inl err \<Rightarrow> s1
                              | Inr newCells \<Rightarrow> s1\<lparr>cells := newCells\<rparr>)))))"

subsection \<open>Recalculation of a cell (components/Cell)\<close>

text \<open>\<open>getCellValue = (ref) => cells[ref]?.value || ''\<close>.\<close>

definition getCellValue :: "(string \<rightharpoonup> CellData) \<Rightarrow> string \<Rightarrow> string" where
  "getCellValue cs ref = (case cs ref of None \<Rightarrow> [] | Some c \<Rightarrow> cell_value c)"

definition valueUpdate :: "string \<Rightarrow> PartialCellData" where
  "valueUpdate v = \<lparr>p_id = None, p_value = Some v, p_formula = None, p_style = None\<rparr>"

text \<open>
  One run of the effect of the cell \<open>i\<close>: a cell with a formula is evaluated once on
  the values stored in the sheet, and the result is written when it differs from the
  stored value. When \<open>evaluateFormula\<close> throws, the effect ends before \<open>updateCell\<close> and
  the store is left as it was.
\<close>

definition cellEffect :: "'n js_number \<Rightarrow> string \<Rightarrow> SheetState \<Rightarrow> SheetState" where
  "cellEffect J i st =
     (let cell = cellOrEmpty (cells st) i in
      if cell_formula cell \<noteq> [] then
        (case evaluateFormula J (cell_formula cell) (getCellValue (cells st)) of
           Inl e \<Rightarrow> st
         | Inr v \<Rightarrow> if v \<noteq> cell_value cell then updateCell i (valueUpdate v) st else st)
      else st)"


subsection \<open>Import and clear\<close>

text \<open>One line of the file: quoted fields may hold commas, a doubled quote is a quote.\<close>

fun parseCsvLine :: "string \<Rightarrow> string list \<Rightarrow> string \<Rightarrow> bool \<Rightarrow> string list" where
  "parseCsvLine [] vals cur inQ = vals @ [cur]"
| "parseCsvLine [c] vals cur inQ =
     (if c = CHR 0x22 then parseCsvLine [] vals cur (\<not> inQ)
      else if c = CHR '','' \<and> \<not> inQ then parseCsvLine [] (vals @ [cur]) [] inQ
      else parseCsvLine [] vals (cur @ [c]) inQ)"
| "parseCsvLine (c # d # cs) vals cur inQ =
     (if c = CHR 0x22 then
        (if inQ \<and> d = CHR 0x22 then parseCsvLine cs vals (cur @ [CHR 0x22]) inQ
         else parseCsvLine (d # cs) vals cur (\<not> inQ))
      else if c = CHR '','' \<and> \<not> inQ then parseCsvLine (d # cs) (vals @ [cur]) [] inQ
      else parseCsvLine (d # cs) vals (cur @ [c]) inQ)"

record import_state =
  newCells :: "(string \<times> CellData) list"
  maxRow :: nat
  maxCol :: nat

definition importedCell :: "string \<Rightarrow> CellData" where
  "importedCell v =
     \<lparr>cell_id = None,
      cell_value = (if startsWith v ''='' then [] else v),
      cell_formula = (if startsWith v ''='' then v else []),
      cell_style = defaultStyle\<rparr>"

definition importValue :: "nat \<Rightarrow> nat \<times> string \<Rightarrow> import_state \<Rightarrow> import_state" where
  "importValue rowIndex cv acc =
     acc\<lparr>newCells := objectSet (indexToColumnLetter (int (fst cv)) @ numToString (rowIndex + 1))
                        (importedCell (snd cv)) (newCells acc),
         maxCol := max (maxCol acc) (fst cv)\<rparr>"

definition importLine :: "nat \<times> string \<Rightarrow> import_state \<Rightarrow> import_state" where
  "importLine rl acc =
     (if trim (snd rl) = [] then acc
      else
        (let vals = parseCsvLine (snd rl) [] [] False;
             acc1 = fold (importValue (fst rl)) (zip [0 ..< length vals] vals) acc
         in acc1\<lparr>maxRow := max (maxRow acc1) (fst rl)\<rparr>))"

text \<open>
  One round of the \<open>forEach\<close> that evaluates the imported formulas. The values are
  assigned to the cell objects that the store already holds. When \<open>evaluateFormula\<close>
  throws, the rounds end there and the values assigned so far stay; the flag records
  that.
\<close>

definition evaluateImported :: "'n js_number \<Rightarrow> string \<Rightarrow> bool \<times> (string \<rightharpoonup> CellData) \<Rightarrow>
    bool \<times> (string \<rightharpoonup> CellData)" where
  "evaluateImported J cellId acc =
     (let updatedCells = snd acc in
      if fst acc then acc
      else
        (case updatedCells cellId of
           None \<Rightarrow> acc
         | Some cell \<Rightarrow>
             if startsWith (cell_formula cell) ''='' then
               (case evaluateFormula J (cell_formula cell) (getCellValue updatedCells) of
                  Inl e \<Rightarrow> (True, updatedCells)
                | Inr v \<Rightarrow> (False, updatedCells(cellId \<mapsto> cell\<lparr>cell_value := v\<rparr>)))
             else acc))"

text \<open>
  \<open>importFromCSV\<close> saves the state and starts reading the file. \<open>fileLoaded\<close> is the
  reader's \<open>onload\<close> with the file's text, together with the evaluation of the imported
  formulas that it schedules with \<open>setTimeout(..., 0)\<close>; the model runs the two in one
  step.
\<close>

definition importFromCSV :: "SheetState \<Rightarrow> SheetState" where
  "importFromCSV st = saveState st"

definition fileLoaded :: "'n js_number \<Rightarrow> string \<Rightarrow> SheetState \<Rightarrow> SheetState" where
  "fileLoaded J content st =
     (let ls = split (CHR 0x0A) content;
          acc = fold importLine (zip [0 ..< length ls] ls)
                  \<lparr>newCells = [], maxRow = 0, maxCol = 0\<rparr>
      in st\<lparr>cells := snd (fold (evaluateImported J) (map fst (newCells acc))
                             (False, map_of (newCells acc))),
            rows := max (rows st) (int (maxRow acc) + 1),
            cols := max (cols st) (int (maxCol acc) + 1)\<rparr>)"

definition clearSpreadsheet :: "bool \<Rightarrow> SheetState \<Rightarrow> SheetState" where
  "clearSpreadsheet confirmed st =
     (if \<not> confirmed then st
      else
        (let s1 = saveState st
         in s1\<lparr>cells := fold (\<lambda>i m. m(i \<mapsto> createEmptyCell))
                             (concat (map (\<lambda>col. map (\<lambda>r. indexToColumnLetter col @ intToString r)
                                                     [1..rows s1])
                                          [0..cols s1 - 1]))
                             Map.empty\<rparr>))"

subsection \<open>Sequences of operations\<close>

text \<open>
  The actions of the store that change its state, the reader's \<open>onload\<close> and the
  effect of a cell. \<open>exportToCSV\<close> and the writes to the system clipboard leave the
  store as it is and are not listed.
\<close>

datatype action =
    SaveState | Undo | Redo
  | AddRow | DeleteRow | AddColumn | DeleteColumn
  | UpdateCell string PartialCellData
  | SetSelectedCell "string option" | SetSelectedCells "string list"
  | StartDrag string | HandleDrag string | EndDrag
  | CopySelectedCells | PasteCells string
  | CopySelection | CutSelection | PasteSelection
  | ImportFromCSV | FileLoaded string | ClearSpreadsheet bool
  | CellEffect string

fun perform :: "'n js_number \<Rightarrow> action \<Rightarrow> SheetState \<Rightarrow> SheetState" where
  "perform J SaveState st = saveState st"
| "perform J Undo st = undo st"
| "perform J Redo st = redo st"
| "perform J AddRow st = addRow st"
| "perform J DeleteRow st = deleteRow st"
| "perform J AddColumn st = addColumn st"
| "perform J DeleteColumn st = deleteColumn st"
| "perform J (UpdateCell i d) st = updateCell i d st"
| "perform J (SetSelectedCell i) st = setSelectedCell i st"
| "perform J (SetSelectedCells ids) st = setSelectedCells ids st"
| "perform J (StartDrag i) st = startDrag i st"
| "perform J (HandleDrag i) st = handleDrag i st"
| "perform J EndDrag st = endDrag st"
| "perform J CopySelectedCells st = copySelectedCells st"
| "perform J (PasteCells i) st = pasteCells i st"
| "perform J CopySelection st = copySelection st"
| "perform J CutSelection st = cutSelection st"
| "perform J PasteSelection st = pasteSelection st"
| "perform J ImportFromCSV st = importFromCSV st"
| "perform J (FileLoaded content) st = fileLoaded J content st"
| "perform J (ClearSpreadsheet confirmed) st = clearSpreadsheet confirmed st"
| "perform J (CellEffect i) st = cellEffect J i st"

definition run :: "'n js_number \<Rightarrow> action list \<Rightarrow> SheetState \<Rightarrow> SheetState" where
  "run J acts st = fold (perform J) acts st"

text \<open>The operations that call \<open>saveState\<close> before anything else: the mutating edits.\<close>

fun mutating :: "action \<Rightarrow> bool" where
  "mutating AddRow = True"
| "mutating DeleteRow = True"
| "mutating AddColumn = True"
| "mutating DeleteColumn = True"
| "mutating (UpdateCell i d) = True"
| "mutating (PasteCells i) = True"
| "mutating CutSelection = True"
| "mutating PasteSelection = True"
| "mutating ImportFromCSV = True"
| "mutating (ClearSpreadsheet confirmed) = confirmed"
| "mutating a = False"

subsection \<open>Column letters as numbers\<close>

text \<open>
  Texts of digits and of capital letters, and the two readings of a column's letters:
  \<open>lettersFrom\<close> is the loop of \<open>columnLetterToIndex\<close> (letters count from 1) and
  \<open>plainFrom\<close> the loop of \<open>parseReference\<close> (letters count from 0), each from a
  starting value.
\<close>

definition plainDigits :: "string \<Rightarrow> bool" where
  "plainDigits ds = (ds \<noteq> [] \<and> list_all (\<lambda>c. isDigit c \<and> \<not> isLetter c \<and> \<not> isWhiteSpace c \<and> c \<noteq> CHR ''$'') ds)"

definition upperLetters :: "string \<Rightarrow> bool" where
  "upperLetters ls = list_all isUpper ls"

definition lettersFrom :: "int \<Rightarrow> string \<Rightarrow> int" where
  "lettersFrom a s = foldl (\<lambda>r c. r * 26 + (int (charCode c) - 64)) a s"

definition plainFrom :: "nat \<Rightarrow> string \<Rightarrow> nat" where
  "plainFrom a s = foldl (\<lambda>acc c. acc * 26 + (charCode c - 65)) a s"

subsection \<open>Destinations of a paste\<close>

text \<open>
  The id that \<open>pasteCells\<close> computes for the entry \<open>cellId\<close> of the snapshot, and its
  test that this destination lies inside the grid.
\<close>

definition pasteDestination :: "int \<Rightarrow> int \<Rightarrow> string \<Rightarrow> string" where
  "pasteDestination colOffset rowOffset cellId =
     indexToColumnLetter (cellCol cellId + colOffset) @ intToString (cellRow cellId + rowOffset)"

definition pasteInBounds :: "int \<Rightarrow> int \<Rightarrow> int \<Rightarrow> int \<Rightarrow> string \<Rightarrow> bool" where
  "pasteInBounds nCols nRows colOffset rowOffset cellId =
     (0 \<le> cellCol cellId + colOffset \<and> cellCol cellId + colOffset < nCols \<and>
      0 < cellRow cellId + rowOffset \<and> cellRow cellId + rowOffset \<le> nRows)"

subsection \<open>Invariants of the store\<close>

text \<open>
  The current index is the last position of the history, which holds at least
  \<open>min MAX_HISTORY n\<close> and at most \<open>MAX_HISTORY\<close> entries.
\<close>

definition savedAtLeast :: "nat \<Rightarrow> SheetState \<Rightarrow> bool" where
  "savedAtLeast n st =
     (historyIndex st = int (length (history st)) - 1 \<and>
      min MAX_HISTORY n \<le> length (history st) \<and> length (history st) \<le> MAX_HISTORY)"

text \<open>The grid and every saved snapshot have at least one row and one column.\<close>

definition gridOk :: "SheetState \<Rightarrow> bool" where
  "gridOk st =
     (1 \<le> rows st \<and> 1 \<le> cols st \<and> list_all (\<lambda>h. 1 \<le> h_rows h \<and> 1 \<le> h_cols h) (history st))"

text \<open>A cell that holds the text \<open>v\<close> and nothing else, for concrete sheets.\<close>

definition textCell :: "string \<Rightarrow> CellData" where
  "textCell v = createEmptyCell\<lparr>cell_value := v\<rparr>"



text \<open>The function names that \<open>evaluateFormula\<close> dispatches on, as it tests them.\<close>

definition recognizedFunctions :: "string list" where
  "recognizedFunctions =
     [''SUM('', ''AVERAGE('', ''MAX('', ''MIN('', ''COUNT('', ''TRIM('', ''UPPER('', ''LOWER('',
      ''REMOVE_DUPLICATES('', ''FIND_AND_REPLACE('']"

section \<open>Properties of the formula evaluator\<close>

lemma startsWith_exclusive:
  assumes "startsWith s p"
    and "take (min (length p) (length q)) p \<noteq> take (min (length p) (length q)) q"
  shows "\<not> startsWith s q"
proof
  assume "startsWith s q"
  then have q: "take (length q) s = q" by (simp add: startsWith_def)
  from assms(1) have p: "take (length p) s = p" by (simp add: startsWith_def)
  have "take (min (length p) (length q)) p = take (min (length p) (length q)) (take (length p) s)"
    using p by simp
  also have "\<dots> = take (min (length p) (length q)) (take (length q) s)"
    by (simp add: min_def)
  also have "\<dots> = take (min (length p) (length q)) q" using q by simp
  finally show False using assms(2) by simp
qed

lemma three_params:
  "length ps \<noteq> 3 \<Longrightarrow> (case ps of [a, b, c] \<Rightarrow> f a b c | _ \<Rightarrow> d) = d"
  by (auto split: list.splits)

text \<open>
  C10: for every text that does not begin with \<open>=\<close>, and for every lookup function (and
  whatever the engine's numbers are), \<open>evaluateFormula\<close> returns the text unchanged.
\<close>

theorem evaluateFormula_non_formula:
  "\<not> startsWith fml ''='' \<Longrightarrow> evaluateFormula J fml g = Inr fml"
  by (simp add: evaluateFormula_def)

theorem evaluateFormula_non_formula_witness:
  "\<not> startsWith ''hello'' ''='' \<and>
   evaluateFormula jsNumber ''hello'' (getCellValue Map.empty) = Inr ''hello''"
  using evaluateFormula_non_formula [of "''hello''" jsNumber "getCellValue Map.empty"]
  by (simp add: startsWith_def)

text \<open>
  C7, as stated, fails for recognized functions with a malformed argument list:
  \<open>=FIND_AND_REPLACE(A1)\<close> has one parameter and evaluates to the \<open>#ERROR\<close> text, and
  \<open>=SUM(???)\<close> evaluates to \<open>0\<close>, the sum over the empty operand list that \<open>parseRange\<close>
  gives for a range it cannot parse. Neither is the formula text.
\<close>

theorem malformed_arguments_counterexample:
  "evaluateFormula jsNumber ''=FIND_AND_REPLACE(A1)'' (getCellValue Map.empty) =
     Inr ''#ERROR: Expected 3 parameters (range, find_text, replace_text)'' \<and>
   evaluateFormula jsNumber ''=SUM(???)'' (getCellValue Map.empty) = Inr ''0''"
  by code_simp

text \<open>
  C7, amended: a formula whose upper-cased text after \<open>=\<close> begins with none of the ten
  function names is returned unchanged; a FIND_AND_REPLACE formula whose parameter list
  does not split into three parameters evaluates to the text
  \<open>#ERROR: Expected 3 parameters (range, find_text, replace_text)\<close>.
\<close>

theorem evaluateFormula_unrecognized:
  assumes "startsWith fml ''=''"
  shows "(list_all (\<lambda>p. \<not> startsWith (toUpperCase (substring fml 1)) p) recognizedFunctions
            \<longrightarrow> evaluateFormula J fml g = Inr fml) \<and>
         (startsWith (toUpperCase (substring fml 1)) ''FIND_AND_REPLACE('' \<and>
          length (splitParameters (slice (toUpperCase (substring fml 1)) 16 (- 1))) \<noteq> 3
            \<longrightarrow> evaluateFormula J fml g =
                  Inr ''#ERROR: Expected 3 parameters (range, find_text, replace_text)'')"
proof (intro conjI impI)
  assume "list_all (\<lambda>p. \<not> startsWith (toUpperCase (substring fml 1)) p) recognizedFunctions"
  then show "evaluateFormula J fml g = Inr fml"
    using assms by (simp add: evaluateFormula_def recognizedFunctions_def Let_def)
next
  assume a: "startsWith (toUpperCase (substring fml 1)) ''FIND_AND_REPLACE('' \<and>
          length (splitParameters (slice (toUpperCase (substring fml 1)) 16 (- 1))) \<noteq> 3"
  then have fr: "startsWith (toUpperCase (substring fml 1)) ''FIND_AND_REPLACE(''" by simp
  have no: "\<not> startsWith (toUpperCase (substring fml 1)) ''SUM(''"
     "\<not> startsWith (toUpperCase (substring fml 1)) ''AVERAGE(''"
     "\<not> startsWith (toUpperCase (substring fml 1)) ''MAX(''"
     "\<not> startsWith (toUpperCase (substring fml 1)) ''MIN(''"
     "\<not> startsWith (toUpperCase (substring fml 1)) ''COUNT(''"
     "\<not> startsWith (toUpperCase (substring fml 1)) ''TRIM(''"
     "\<not> startsWith (toUpperCase (substring fml 1)) ''UPPER(''"
     "\<not> startsWith (toUpperCase (substring fml 1)) ''LOWER(''"
     "\<not> startsWith (toUpperCase (substring fml 1)) ''REMOVE_DUPLICATES(''"
    by (rule startsWith_exclusive [OF fr]; simp)+
  show "evaluateFormula J fml g =
                  Inr ''#ERROR: Expected 3 parameters (range, find_text, replace_text)''"
    using assms fr no a by (simp add: evaluateFormula_def Let_def three_params)
qed

theorem evaluateFormula_unrecognized_witness:
  "startsWith ''=FOO(A1)'' ''='' \<and>
   list_all (\<lambda>p. \<not> startsWith (toUpperCase (substring ''=FOO(A1)'' 1)) p) recognizedFunctions \<and>
   evaluateFormula jsNumber ''=FOO(A1)'' (getCellValue Map.empty) = Inr ''=FOO(A1)''"
proof -
  have 1: "startsWith ''=FOO(A1)'' ''=''" by code_simp
  have 2: "list_all (\<lambda>p. \<not> startsWith (toUpperCase (substring ''=FOO(A1)'' 1)) p)
             recognizedFunctions"
    by code_simp
  from evaluateFormula_unrecognized [OF 1, of jsNumber "getCellValue Map.empty"] 1 2
  show ?thesis by blast
qed

text \<open>
  C6, as stated, fails: the AVERAGE branch divides the sum by \<open>values.length\<close>
  without looking at the count. On the sheet whose cell A1 holds the text \<open>x\<close>, the
  operand set of \<open>=AVERAGE(A1:A1)\<close> is empty and the result is the text \<open>NaN\<close>, not a
  division-by-zero token.
\<close>

theorem average_counterexample:
  "numericValues jsNumber (getCellValue [''A1'' \<mapsto> textCell ''x'']) (parseRange ''A1:A1'' None) = [] \<and>
   evaluateFormula jsNumber ''=AVERAGE(A1:A1)'' (getCellValue [''A1'' \<mapsto> textCell ''x'']) =
     Inr ''NaN''"
  by code_simp

text \<open>
  C6, amended: evaluating an AVERAGE formula over a range whose numeric-coercible
  operand set is empty yields the text of \<open>0 / 0\<close> in the engine's numbers, which is
  \<open>NaN\<close>.
\<close>

theorem average_of_no_numbers:
  assumes "startsWith fml ''=''"
    and "startsWith (toUpperCase (substring fml 1)) ''AVERAGE(''"
    and "numericValues J g (parseRange (slice (toUpperCase (substring fml 1)) 8 (- 1)) None) = []"
  shows "evaluateFormula J fml g = Inr (toString J (divNum J (ofNat J 0) (ofNat J 0))) \<and>
         toString jsNumber (divNum jsNumber (ofNat jsNumber 0) (ofNat jsNumber 0)) = ''NaN''"
proof
  have "\<not> startsWith (toUpperCase (substring fml 1)) ''SUM(''"
    by (rule startsWith_exclusive [OF assms(2)]) simp
  then show "evaluateFormula J fml g = Inr (toString J (divNum J (ofNat J 0) (ofNat J 0)))"
    using assms by (simp add: evaluateFormula_def Let_def sumValues_def)
  show "toString jsNumber (divNum jsNumber (ofNat jsNumber 0) (ofNat jsNumber 0)) = ''NaN''"
    by (simp add: jsNumber_def)
qed

theorem average_of_no_numbers_witness:
  "startsWith ''=AVERAGE(B2:A1)'' ''='' \<and>
   startsWith (toUpperCase (substring ''=AVERAGE(B2:A1)'' 1)) ''AVERAGE('' \<and>
   numericValues jsNumber (getCellValue Map.empty)
     (parseRange (slice (toUpperCase (substring ''=AVERAGE(B2:A1)'' 1)) 8 (- 1)) None) = [] \<and>
   evaluateFormula jsNumber ''=AVERAGE(B2:A1)'' (getCellValue Map.empty) = Inr ''NaN''"
proof -
  have 1: "startsWith ''=AVERAGE(B2:A1)'' ''=''" by code_simp
  have 2: "startsWith (toUpperCase (substring ''=AVERAGE(B2:A1)'' 1)) ''AVERAGE(''" by code_simp
  have 3: "numericValues jsNumber (getCellValue Map.empty)
     (parseRange (slice (toUpperCase (substring ''=AVERAGE(B2:A1)'' 1)) 8 (- 1)) None) = []"
    by code_simp
  from average_of_no_numbers [OF 1 2 3] 1 2 3 show ?thesis by simp
qed

text \<open>
  The range text of a REMOVE_DUPLICATES formula is cut one character early
  (\<open>slice(17, -1)\<close> for a name of 18 characters), so it is empty or begins with the
  opening parenthesis. \<open>parseRange\<close> then finds no cell, or the single reference made of
  the text before a trailing colon: the formula evaluates to the empty text or to the
  value looked up under a reference that begins with a parenthesis.
\<close>

lemma paren_facts:
  "\<not> isWhiteSpace (CHR ''('')" "\<not> isLetter (CHR ''('')" "CHR ''('' \<noteq> CHR '':''"
  "CHR ''('' \<noteq> CHR ''$''"
  by (simp_all add: isWhiteSpace_def isLetter_def isUpper_def isLower_def charCode_def)

lemma trim_keeps_head:
  assumes "\<not> isWhiteSpace c"
  shows "\<exists>zs. trim (c # xs) = c # zs"
proof -
  have "dropWhile isWhiteSpace (rev xs @ [c]) = [c] \<or>
        dropWhile isWhiteSpace (rev xs @ [c]) = dropWhile isWhiteSpace (rev xs) @ [c]"
    using assms by (simp add: dropWhile_append)
  then obtain ys where "dropWhile isWhiteSpace (rev xs @ [c]) = ys @ [c]"
    by (metis append_Nil)
  then have "trim (c # xs) = c # rev ys" using assms by (simp add: trim_def)
  then show ?thesis by blast
qed

lemma split_keeps_head:
  "c \<noteq> sep \<Longrightarrow> \<exists>p ps. split sep (c # cs) = (c # p) # ps"
  by (simp split: list.splits)

lemma parseReference_paren: "parseReference (CHR ''('' # xs) = Inl (InvalidCellReference (trim (CHR ''('' # xs)))"
proof -
  obtain zs where "trim (CHR ''('' # xs) = CHR ''('' # zs"
    using trim_keeps_head [OF paren_facts(1)] by blast
  then show ?thesis
    by (simp add: parseReference_def Let_def startsWith_def paren_facts)
qed

lemma parseRange_paren:
  "parseRange (CHR ''('' # xs) None = [] \<or>
   (\<exists>ref. parseRange (CHR ''('' # xs) None = [CHR ''('' # ref])"
proof -
  obtain ts where t: "trim (CHR ''('' # xs) = CHR ''('' # ts"
    using trim_keeps_head [OF paren_facts(1)] by blast
  obtain p ps where s: "split CHR '':'' (CHR ''('' # xs) = (CHR ''('' # p) # ps"
    using split_keeps_head [OF paren_facts(3)] by blast
  obtain zs where z: "trim (CHR ''('' # p) = CHR ''('' # zs"
    using trim_keeps_head [OF paren_facts(1)] by blast
  have "parseRange (CHR ''('' # xs) None =
          (if (case ps of [] \<Rightarrow> CHR ''('' # zs | p1 # _ \<Rightarrow> trim p1) = []
           then [normalizeReference (CHR ''('' # zs) None] else [])"
    by (simp add: parseRange_def Let_def t s z parseReference_paren del: split.simps)
  then show ?thesis by (simp add: normalizeReference_def paren_facts)
qed

lemma slice_remove_duplicates:
  assumes "startsWith s ''REMOVE_DUPLICATES(''"
  shows "slice s 17 (- 1) = [] \<or> (\<exists>xs. slice s 17 (- 1) = CHR ''('' # xs)"
proof -
  from assms have "take (length ''REMOVE_DUPLICATES('') s = ''REMOVE_DUPLICATES(''"
    by (simp only: startsWith_def)
  then have "s = ''REMOVE_DUPLICATES('' @ drop (length ''REMOVE_DUPLICATES('') s"
    by (metis append_take_drop_id)
  then obtain r where s: "s = ''REMOVE_DUPLICATES('' @ r" ..
  have "slice s 17 (- 1) = take (length r) (CHR ''('' # r)"
    by (simp add: slice_def Let_def s)
  then show ?thesis by (cases r) simp_all
qed

lemma remove_duplicates_result:
  assumes "startsWith fml ''=''"
    and "startsWith (toUpperCase (substring fml 1)) ''REMOVE_DUPLICATES(''"
  shows "evaluateFormula J fml g = Inr [] \<or>
         (\<exists>ref. evaluateFormula J fml g = Inr (g (CHR ''('' # ref)))"
proof -
  let ?clean = "toUpperCase (substring fml 1)"
  have no: "\<not> startsWith ?clean ''SUM(''" "\<not> startsWith ?clean ''AVERAGE(''"
    "\<not> startsWith ?clean ''MAX(''" "\<not> startsWith ?clean ''MIN(''"
    "\<not> startsWith ?clean ''COUNT(''" "\<not> startsWith ?clean ''TRIM(''"
    "\<not> startsWith ?clean ''UPPER(''" "\<not> startsWith ?clean ''LOWER(''"
    by (rule startsWith_exclusive [OF assms(2)]; simp)+
  have ev: "evaluateFormula J fml g =
      Inr (join '', '' (uniqueValues (map g (parseRange (slice ?clean 17 (- 1)) None))))"
    using assms no by (simp add: evaluateFormula_def Let_def)
  have "parseRange (slice ?clean 17 (- 1)) None = [] \<or>
        (\<exists>ref. parseRange (slice ?clean 17 (- 1)) None = [CHR ''('' # ref])"
  proof -
    from slice_remove_duplicates [OF assms(2)] show ?thesis
    proof (elim disjE exE)
      assume "slice ?clean 17 (- 1) = []"
      then show ?thesis by (simp add: parseRange_def)
    next
      fix xs assume "slice ?clean 17 (- 1) = CHR ''('' # xs"
      then show ?thesis using parseRange_paren [of xs] by simp
    qed
  qed
  then show ?thesis by (auto simp: ev uniqueValues_def)
qed

text \<open>
  C8: the claim is what the branch is written to do, and the code misses it. The name
  \<open>REMOVE_DUPLICATES(\<close> has 18 characters and the branch cuts the range with
  \<open>slice(17, -1)\<close>, so the range text keeps the opening parenthesis and \<open>parseRange\<close>
  cannot parse its first corner. On the sheet A1 = x, A2 = y, A3 = x the formula
  \<open>=REMOVE_DUPLICATES(A1:A3)\<close> evaluates to the empty text; the values of A1:A3 without
  duplicates, joined, are \<open>x, y\<close>.
\<close>

theorem remove_duplicates_yields_nothing:
  "evaluateFormula jsNumber ''=REMOVE_DUPLICATES(A1:A3)''
     (getCellValue [''A1'' \<mapsto> textCell ''x'', ''A2'' \<mapsto> textCell ''y'', ''A3'' \<mapsto> textCell ''x'']) =
     Inr [] \<and>
   slice (toUpperCase (substring ''=REMOVE_DUPLICATES(A1:A3)'' 1)) 17 (- 1) = ''(A1:A3'' \<and>
   join '', '' (uniqueValues (map (getCellValue [''A1'' \<mapsto> textCell ''x'', ''A2'' \<mapsto> textCell ''y'', ''A3'' \<mapsto> textCell ''x''])
      (parseRange ''A1:A3'' None))) = ''x, y''"
  by code_simp

lemma concat_map_empty: "concat (map (\<lambda>x. []) xs) = []"
  by (induction xs) simp_all

lemma rangeCells_reversed:
  assumes "colIndex endRef < colIndex startRef \<or> row endRef < row startRef"
  shows "rangeCells startRef endRef = []"
  using assms
proof
  assume "colIndex endRef < colIndex startRef"
  then have "[colIndex startRef ..< Suc (colIndex endRef)] = []" by simp
  then show ?thesis by (simp only: rangeCells_def list.map concat.simps)
next
  assume "row endRef < row startRef"
  then have "[row startRef ..< Suc (row endRef)] = []" by simp
  then show ?thesis by (simp only: rangeCells_def list.map concat_map_empty)
qed

text \<open>
  C3: \<open>parseRange\<close> takes no minimum or maximum of the corners; it iterates from the
  first corner to the second. \<open>A1:B2\<close> expands to four cells, \<open>B2:A1\<close> to none. The
  degenerate range \<open>A1:A1\<close> expands to the single cell.
\<close>

theorem parseRange_reversed_corners:
  "parseRange ''A1:B2'' None = [''A1'', ''A2'', ''B1'', ''B2''] \<and>
   parseRange ''B2:A1'' None = [] \<and>
   parseRange ''A1:A1'' None = [''A1'']"
  by code_simp

text \<open>
  The store's own codec is a round trip: \<open>columnLetterToIndex\<close> undoes
  \<open>indexToColumnLetter\<close>. \<open>parseReference\<close> reads the text of a cell id back with the
  right row, and with the right column exactly for the one-letter columns 0 to 25; from
  column 26 on it reads a smaller column.
\<close>

lemma charCode_fromCharCode: "n < 256 \<Longrightarrow> charCode (fromCharCode n) = n"
  by (simp add: charCode_def fromCharCode_def)

lemma digit_char:
  assumes "d < 10"
  shows "isDigit (fromCharCode (48 + d))" and "\<not> isLetter (fromCharCode (48 + d))"
    and "\<not> isWhiteSpace (fromCharCode (48 + d))" and "fromCharCode (48 + d) \<noteq> CHR ''$''"
    and "charCode (fromCharCode (48 + d)) - 48 = d"
proof -
  have c: "charCode (fromCharCode (48 + d)) = 48 + d"
    using assms by (simp add: charCode_fromCharCode)
  show "isDigit (fromCharCode (48 + d))" using assms by (simp add: isDigit_def c)
  show "\<not> isLetter (fromCharCode (48 + d))"
    using assms by (simp add: isLetter_def isUpper_def isLower_def c)
  show "\<not> isWhiteSpace (fromCharCode (48 + d))" using assms by (simp add: isWhiteSpace_def c)
  show "charCode (fromCharCode (48 + d)) - 48 = d" by (simp add: c)
  show "fromCharCode (48 + d) \<noteq> CHR ''$''"
  proof
    assume "fromCharCode (48 + d) = CHR ''$''"
    then have "charCode (fromCharCode (48 + d)) = charCode (CHR ''$'')" by simp
    then show False by (simp add: c) (simp add: charCode_def)
  qed
qed

lemma parseInt_snoc: "parseInt (ds @ [c]) = 10 * parseInt ds + (charCode c - 48)"
  by (simp add: parseInt_def)

lemma numToString_digits: "plainDigits (numToString n) \<and> parseInt (numToString n) = n"
proof (induction n rule: numToString.induct)
  case (1 n)
  show ?case
  proof (cases "n < 10")
    case True
    then have "numToString n = [fromCharCode (48 + n)]" by (subst numToString.simps) simp
    then show ?thesis using digit_char [OF True]
      by (simp add: plainDigits_def parseInt_def del: numToString.simps)
  next
    case False
    then have s: "numToString n = numToString (n div 10) @ [fromCharCode (48 + n mod 10)]"
      by (subst numToString.simps) simp
    have d: "n mod 10 < 10" by simp
    from False 1 have ih: "plainDigits (numToString (n div 10))"
      "parseInt (numToString (n div 10)) = n div 10" by (simp_all del: numToString.simps)
    show ?thesis
      using ih digit_char [OF d]
      by (simp add: s plainDigits_def parseInt_snoc del: numToString.simps)
  qed
qed

lemma trim_plain:
  assumes "list_all (\<lambda>c. \<not> isWhiteSpace c) xs"
  shows "trim xs = xs"
proof -
  have "\<And>ys. list_all (\<lambda>c. \<not> isWhiteSpace c) ys \<Longrightarrow> dropWhile isWhiteSpace ys = ys"
    by (case_tac ys) simp_all
  moreover have "list_all (\<lambda>c. \<not> isWhiteSpace c) (rev xs)" using assms by (simp add: list_all_iff)
  ultimately show ?thesis using assms by (simp add: trim_def)
qed

lemma indexToColumnLetter_single:
  assumes "0 \<le> c" and "c \<le> 25"
  shows "indexToColumnLetter c = [fromCharCode (65 + nat c)]"
proof -
  have "columnLetters (c + 1) [] = columnLetters 0 [fromCharCode (65 + nat c)]"
    using assms by (subst columnLetters.simps) simp
  also have "\<dots> = [fromCharCode (65 + nat c)]" by (subst columnLetters.simps) simp
  finally show ?thesis by (simp add: indexToColumnLetter_def)
qed

lemma upper_char:
  assumes "isUpper c"
  shows "isLetter c" and "\<not> isLower c" and "\<not> isWhiteSpace c" and "c \<noteq> CHR ''$''"
    and "65 \<le> charCode c" and "charCode c \<le> 90"
proof -
  show "isLetter c" using assms by (simp add: isLetter_def)
  show "\<not> isLower c" using assms by (simp add: isUpper_def isLower_def)
  show "\<not> isWhiteSpace c" using assms by (simp add: isUpper_def isWhiteSpace_def)
  show "65 \<le> charCode c" and "charCode c \<le> 90" using assms by (simp_all add: isUpper_def)
  show "c \<noteq> CHR ''$''"
  proof
    assume "c = CHR ''$''"
    with assms show False by (simp add: isUpper_def charCode_def)
  qed
qed

lemma isUpper_fromCharCode: "n \<le> 25 \<Longrightarrow> isUpper (fromCharCode (65 + n))"
  by (simp add: isUpper_def charCode_fromCharCode)

lemma parseReference_letters_digits:
  assumes "upperLetters ls" and "ls \<noteq> []" and "plainDigits ds"
  shows "parseReference (ls @ ds) =
     Inr \<lparr>colIndex = foldl (\<lambda>acc c. acc * 26 + (charCode c - 65)) 0 ls,
          row = parseInt ds, colAbsolute = False, rowAbsolute = False, original = ls @ ds\<rparr>"
proof -
  obtain l ls' where ls: "ls = l # ls'" using assms(2) by (cases ls) simp_all
  obtain d ds' where ds: "ds = d # ds'" using assms(3) by (cases ds) (simp_all add: plainDigits_def)
  have up: "\<And>c. c \<in> set ls \<Longrightarrow> isUpper c" using assms(1) by (simp add: upperLetters_def list_all_iff)
  have all: "list_all (\<lambda>c. isDigit c \<and> \<not> isLetter c \<and> \<not> isWhiteSpace c \<and> c \<noteq> CHR ''$'') ds"
    using assms(3) by (simp add: plainDigits_def)
  have "list_all (\<lambda>c. \<not> isWhiteSpace c) (ls @ ds)"
    using all up upper_char(3) by (auto simp: list_all_iff)
  then have t: "trim (ls @ ds) = ls @ ds" by (rule trim_plain)
  have dig: "list_all isDigit ds" using all by (simp add: list_all_iff)
  have d0: "\<not> isLetter d" "d \<noteq> CHR ''$''" using all by (simp_all add: ds)
  have l0: "l \<noteq> CHR ''$''" using up [of l] upper_char(4) by (simp add: ls)
  have tw: "takeWhile isLetter (ls @ ds) = ls"
    using up upper_char(1) d0 by (simp add: takeWhile_append2 ds)
  have uc: "toUpperCase ls = ls"
    unfolding toUpperCase_def using up upper_char(2) by (simp add: map_idI)
  have c1: "\<not> startsWith (ls @ ds) ''$''" using l0 by (simp add: startsWith_def ls)
  have c2: "\<not> startsWith ds ''$''" using d0 by (simp add: startsWith_def ds)
  have ne: "ds \<noteq> []" by (simp add: ds)
  show ?thesis
    unfolding parseReference_def Let_def t
    using c1 c2 dig ne assms(2) by (simp add: tw uc substring_def)
qed

lemma lettersFrom_simps [simp]:
  "lettersFrom a [] = a"
  "lettersFrom a (c # s) = lettersFrom (a * 26 + (int (charCode c) - 64)) s"
  by (simp_all add: lettersFrom_def)

lemma plainFrom_simps [simp]:
  "plainFrom a [] = a"
  "plainFrom a (c # s) = plainFrom (a * 26 + (charCode c - 65)) s"
  by (simp_all add: plainFrom_def)

lemma lettersFrom_shift: "lettersFrom a s = a * 26 ^ length s + lettersFrom 0 s"
proof (induction s arbitrary: a)
  case Nil
  show ?case by simp
next
  case (Cons c s)
  have 1: "lettersFrom a (c # s) =
      (a * 26 + (int (charCode c) - 64)) * 26 ^ length s + lettersFrom 0 s"
    using Cons.IH [of "a * 26 + (int (charCode c) - 64)"] by simp
  have 2: "lettersFrom 0 (c # s) = (int (charCode c) - 64) * 26 ^ length s + lettersFrom 0 s"
    using Cons.IH [of "int (charCode c) - 64"] by simp
  show ?case unfolding 1 2 by (simp add: algebra_simps)
qed

lemma plainFrom_shift: "plainFrom a s = a * 26 ^ length s + plainFrom 0 s"
proof (induction s arbitrary: a)
  case Nil
  show ?case by simp
next
  case (Cons c s)
  have 1: "plainFrom a (c # s) = (a * 26 + (charCode c - 65)) * 26 ^ length s + plainFrom 0 s"
    using Cons.IH [of "a * 26 + (charCode c - 65)"] by simp
  have 2: "plainFrom 0 (c # s) = (charCode c - 65) * 26 ^ length s + plainFrom 0 s"
    using Cons.IH [of "charCode c - 65"] by simp
  show ?case unfolding 1 2 by (simp add: algebra_simps)
qed

lemma columnLetters_value:
  "0 \<le> i \<Longrightarrow> lettersFrom 0 (columnLetters i acc) = i * 26 ^ length acc + lettersFrom 0 acc"
proof (induction i acc rule: columnLetters.induct)
  case (1 index letter)
  show ?case
  proof (cases "0 < index")
    case False
    with 1 have "index = 0" by simp
    then show ?thesis by (subst columnLetters.simps) simp
  next
    case True
    let ?c = "fromCharCode (65 + nat ((index - 1) mod 26))"
    have m: "nat ((index - 1) mod 26) \<le> 25" by simp
    have cc: "int (charCode ?c) - 64 = 1 + (index - 1) mod 26"
      using m by (simp add: charCode_fromCharCode)
    have s: "columnLetters index letter = columnLetters ((index - 1) div 26) (?c # letter)"
      using True by (subst columnLetters.simps) simp
    have "0 \<le> (index - 1) div 26" using True by simp
    with 1 True have ih: "lettersFrom 0 (columnLetters ((index - 1) div 26) (?c # letter)) =
        (index - 1) div 26 * 26 ^ length (?c # letter) + lettersFrom 0 (?c # letter)"
      by simp
    have v: "lettersFrom 0 (?c # letter) =
        (1 + (index - 1) mod 26) * 26 ^ length letter + lettersFrom 0 letter"
      using lettersFrom_shift [of "1 + (index - 1) mod 26" letter] by (simp add: cc)
    have "(index - 1) div 26 * 26 + (1 + (index - 1) mod 26) = index" by simp
    then have "index * 26 ^ length letter =
        (index - 1) div 26 * 26 * 26 ^ length letter + (1 + (index - 1) mod 26) * 26 ^ length letter"
      by (metis distrib_right)
    then show ?thesis
      unfolding s ih v by simp
  qed
qed

lemma columnLetterToIndex_indexToColumnLetter:
  "0 \<le> c \<Longrightarrow> columnLetterToIndex (indexToColumnLetter c) = c"
  using columnLetters_value [of "c + 1" "[]"]
  by (simp add: columnLetterToIndex_def indexToColumnLetter_def lettersFrom_def
      del: columnLetters.simps)

lemma columnLetters_upper:
  "upperLetters acc \<Longrightarrow> upperLetters (columnLetters i acc)"
proof (induction i acc rule: columnLetters.induct)
  case (1 index letter)
  show ?case
  proof (cases "0 < index")
    case False
    then show ?thesis using 1(2) by (subst columnLetters.simps) simp
  next
    case True
    have "isUpper (fromCharCode (65 + nat ((index - 1) mod 26)))"
      by (rule isUpper_fromCharCode) simp
    with 1 True have "upperLetters (columnLetters ((index - 1) div 26)
        (fromCharCode (65 + nat ((index - 1) mod 26)) # letter))"
      by (simp add: upperLetters_def del: columnLetters.simps)
    then show ?thesis using True by (subst columnLetters.simps) simp
  qed
qed

lemma plain_value_below:
  assumes "upperLetters s"
  shows "int (plainFrom 0 s) + (\<Sum>j<length s. 26 ^ j) = lettersFrom 0 s"
  using assms
proof (induction s)
  case Nil
  show ?case by simp
next
  case (Cons c s)
  then have "isUpper c" and up: "upperLetters s" by (simp_all add: upperLetters_def)
  then have c: "int (charCode c - 65) = int (charCode c) - 65" using upper_char(5) by simp
  have 1: "lettersFrom 0 (c # s) = (int (charCode c) - 64) * 26 ^ length s + lettersFrom 0 s"
    using lettersFrom_shift [of "int (charCode c) - 64" s] by simp
  have 2: "int (plainFrom 0 (c # s)) = (int (charCode c) - 65) * 26 ^ length s + int (plainFrom 0 s)"
    using plainFrom_shift [of "charCode c - 65" s] by (simp add: c)
  from Cons.IH [OF up] show ?case
    unfolding 1 2 by (simp add: algebra_simps)
qed

lemma parseReference_createCellId_column:
  assumes "0 \<le> c" and "0 \<le> r"
  shows "\<exists>p. parseReference (createCellId r c) =
            Inr \<lparr>colIndex = p, row = nat r, colAbsolute = False, rowAbsolute = False,
                 original = createCellId r c\<rparr> \<and>
             (if c \<le> 25 then int p = c else int p < c)"
proof -
  let ?ls = "indexToColumnLetter c"
  have up: "upperLetters ?ls"
    unfolding indexToColumnLetter_def by (rule columnLetters_upper) (simp add: upperLetters_def)
  have val: "lettersFrom 0 ?ls = c + 1"
    using columnLetters_value [of "c + 1" "[]"] assms(1) by (simp add: indexToColumnLetter_def)
  then have ne: "?ls \<noteq> []" using assms(1) by auto
  have id: "createCellId r c = ?ls @ numToString (nat r)"
    using assms(2) by (simp add: createCellId_def intToString_def del: numToString.simps)
  have pr: "parseReference (createCellId r c) =
      Inr \<lparr>colIndex = plainFrom 0 ?ls, row = nat r, colAbsolute = False, rowAbsolute = False,
           original = createCellId r c\<rparr>"
    using parseReference_letters_digits [OF up ne, of "numToString (nat r)"]
      numToString_digits [of "nat r"]
    by (simp add: id plainFrom_def del: numToString.simps)
  have sum: "int (plainFrom 0 ?ls) + (\<Sum>j<length ?ls. 26 ^ j) = c + 1"
    using plain_value_below [OF up] val by simp
  have "if c \<le> 25 then int (plainFrom 0 ?ls) = c else int (plainFrom 0 ?ls) < c"
  proof (cases "c \<le> 25")
    case True
    then have "length ?ls = 1" using assms(1) by (simp add: indexToColumnLetter_single)
    with sum True show ?thesis by simp
  next
    case False
    have "2 \<le> length ?ls"
    proof (rule ccontr)
      assume "\<not> 2 \<le> length ?ls"
      with ne obtain l where l: "?ls = [l]" by (cases ?ls) (auto simp: Suc_le_eq)
      with up have "charCode l \<le> 90" using upper_char(6) by (simp add: upperLetters_def)
      with val l False show False by simp
    qed
    then obtain n where n: "length ?ls = Suc (Suc n)" by (metis Suc_le_D numeral_2_eq_2 Suc_le_mono)
    have "(0::int) \<le> (\<Sum>j<n. 26 ^ Suc (Suc j))" by (rule sum_nonneg) simp
    then have "(27::int) \<le> (\<Sum>j<length ?ls. 26 ^ j)"
      unfolding n by (simp add: sum.lessThan_Suc_shift del: sum.lessThan_Suc power_Suc)
    with sum False show ?thesis by simp
  qed
  with pr show ?thesis by blast
qed

text \<open>
  C2: the round trip fails from column 26 on. The address with column index 26 and
  row 1 is written \<open>AA1\<close> (\<open>createCellId\<close>, by \<open>indexToColumnLetter\<close>);
  \<open>parseReference\<close> reads its column as 0, where the store's own
  \<open>columnLetterToIndex\<close> reads 26.
\<close>

theorem parseReference_two_letter_column:
  "createCellId 1 26 = ''AA1'' \<and>
   parseReference (createCellId 1 26) =
     Inr \<lparr>colIndex = 0, row = 1, colAbsolute = False, rowAbsolute = False, original = ''AA1''\<rparr> \<and>
   cellCol (createCellId 1 26) = 26"
  by code_simp

section \<open>Properties of the history\<close>

lemma length_sliceTo: "length (sliceTo xs e) \<le> length xs"
  by (simp add: sliceTo_def Let_def)

lemma saveState_index:
  "historyIndex (saveState st) = int (length (history (saveState st))) - 1"
  by (simp add: saveState_def Let_def)

lemma saveState_length_le:
  "length (history st) \<le> MAX_HISTORY \<Longrightarrow> length (history (saveState st)) \<le> MAX_HISTORY"
  using length_sliceTo [of "history st" "historyIndex st + 1"]
  by (auto simp: saveState_def Let_def)

lemma saveState_length_ge1: "1 \<le> length (history (saveState st))"
  by (auto simp: saveState_def Let_def MAX_HISTORY_def)

lemma saveState_length_grow:
  assumes "historyIndex st = int (length (history st)) - 1"
    and "length (history st) \<le> MAX_HISTORY"
  shows "length (history (saveState st)) = min MAX_HISTORY (length (history st) + 1)"
  using assms by (auto simp: saveState_def Let_def)

lemma savedAtLeast_first:
  "length (history st) \<le> MAX_HISTORY \<Longrightarrow> savedAtLeast 1 (saveState st)"
  using saveState_length_ge1 [of st]
  by (simp add: savedAtLeast_def saveState_index saveState_length_le)

lemma savedAtLeast_next: "savedAtLeast n st \<Longrightarrow> savedAtLeast (Suc n) (saveState st)"
  by (auto simp: savedAtLeast_def saveState_index saveState_length_grow)

lemma savedAtLeast_mono: "savedAtLeast n st \<Longrightarrow> m \<le> n \<Longrightarrow> savedAtLeast m st"
  by (auto simp: savedAtLeast_def)

lemma pasteCells_history:
  "history (pasteCells t st) = history (saveState st)"
  "historyIndex (pasteCells t st) = historyIndex (saveState st)"
  by (simp_all add: pasteCells_def Let_def split: option.splits)

lemma mutating_history:
  assumes "mutating a"
  shows "(history (perform J a st) = history (saveState st) \<and>
          historyIndex (perform J a st) = historyIndex (saveState st)) \<or>
         (history (perform J a st) = history (saveState (saveState st)) \<and>
          historyIndex (perform J a st) = historyIndex (saveState (saveState st)))"
  using assms
  by (cases a)
     (simp_all add: addRow_def deleteRow_def addColumn_def deleteColumn_def updateCell_def
        pasteCells_history cutSelection_def pasteSelection_def importFromCSV_def
        clearSpreadsheet_def Let_def split: option.splits sum.splits prod.splits)

lemma savedAtLeast_same:
  assumes "savedAtLeast n st"
    and "history st' = history st" and "historyIndex st' = historyIndex st"
  shows "savedAtLeast n st'"
  using assms by (simp add: savedAtLeast_def)

lemma mutating_first:
  assumes "mutating a" and "length (history st) \<le> MAX_HISTORY"
  shows "savedAtLeast 1 (perform J a st)"
proof -
  have 1: "savedAtLeast 1 (saveState st)" using assms(2) by (rule savedAtLeast_first)
  then have "savedAtLeast (Suc 1) (saveState (saveState st))" by (rule savedAtLeast_next)
  then have 2: "savedAtLeast 1 (saveState (saveState st))"
    by (rule savedAtLeast_mono) simp
  from mutating_history [OF assms(1), of J st] show ?thesis
  proof (elim disjE conjE)
    assume "history (perform J a st) = history (saveState st)"
      and "historyIndex (perform J a st) = historyIndex (saveState st)"
    with 1 show ?thesis by (rule savedAtLeast_same)
  next
    assume "history (perform J a st) = history (saveState (saveState st))"
      and "historyIndex (perform J a st) = historyIndex (saveState (saveState st))"
    with 2 show ?thesis by (rule savedAtLeast_same)
  qed
qed

lemma mutating_next:
  assumes "mutating a" and "savedAtLeast n st"
  shows "savedAtLeast (Suc n) (perform J a st)"
proof -
  have 1: "savedAtLeast (Suc n) (saveState st)" using assms(2) by (rule savedAtLeast_next)
  then have "savedAtLeast (Suc (Suc n)) (saveState (saveState st))" by (rule savedAtLeast_next)
  then have 2: "savedAtLeast (Suc n) (saveState (saveState st))"
    by (rule savedAtLeast_mono) simp
  from mutating_history [OF assms(1), of J st] show ?thesis
  proof (elim disjE conjE)
    assume "history (perform J a st) = history (saveState st)"
      and "historyIndex (perform J a st) = historyIndex (saveState st)"
    with 1 show ?thesis by (rule savedAtLeast_same)
  next
    assume "history (perform J a st) = history (saveState (saveState st))"
      and "historyIndex (perform J a st) = historyIndex (saveState (saveState st))"
    with 2 show ?thesis by (rule savedAtLeast_same)
  qed
qed

lemma run_Cons: "run J (a # acts) st = run J acts (perform J a st)"
  by (simp add: run_def)

lemma mutating_run:
  "list_all mutating edits \<Longrightarrow> savedAtLeast n st \<Longrightarrow>
   savedAtLeast (n + length edits) (run J edits st)"
proof (induction edits arbitrary: n st)
  case Nil
  then show ?case by (simp add: run_def)
next
  case (Cons a edits)
  then have "savedAtLeast (Suc n) (perform J a st)" by (simp add: mutating_next)
  moreover from Cons.prems have "list_all mutating edits" by simp
  ultimately have "savedAtLeast (Suc n + length edits) (run J edits (perform J a st))"
    by (rule Cons.IH [rotated])
  then show ?case by (simp add: run_Cons)
qed

lemma history_full_after_edits:
  assumes "list_all mutating edits" and "MAX_HISTORY \<le> length edits"
    and "length (history st) \<le> MAX_HISTORY"
  shows "length (history (run J edits st)) = MAX_HISTORY \<and>
         historyIndex (run J edits st) = int MAX_HISTORY - 1"
proof (cases edits)
  case Nil
  with assms(2) show ?thesis by (simp add: MAX_HISTORY_def)
next
  case (Cons a rest)
  with assms(1) have "mutating a" and rest: "list_all mutating rest" by simp_all
  from \<open>mutating a\<close> assms(3) have "savedAtLeast 1 (perform J a st)" by (rule mutating_first)
  with rest have "savedAtLeast (1 + length rest) (run J rest (perform J a st))"
    by (rule mutating_run)
  then have "savedAtLeast (length edits) (run J edits st)" by (simp add: Cons run_Cons)
  with assms(2) show ?thesis by (auto simp: savedAtLeast_def)
qed

lemma restore_history [simp]: "history (restore st n) = history st"
  by (simp add: restore_def Let_def)

lemma undo_redo_history [simp]:
  "history (undo st) = history st" "history (redo st) = history st"
  by (simp_all add: undo_def redo_def)

lemma edit_history [simp]:
  "history (addRow st) = history (saveState st)"
  "history (deleteRow st) = history (saveState st)"
  "history (addColumn st) = history (saveState st)"
  "history (deleteColumn st) = history (saveState st)"
  "history (updateCell i d st) = history (saveState st)"
  "history (cutSelection st) = history (saveState st)"
  "history (importFromCSV st) = history (saveState st)"
  "history (clearSpreadsheet True st) = history (saveState st)"
  "history (clearSpreadsheet False st) = history st"
  by (simp_all add: addRow_def deleteRow_def addColumn_def deleteColumn_def updateCell_def
      cutSelection_def importFromCSV_def clearSpreadsheet_def Let_def split: option.splits)

lemma selection_history [simp]:
  "history (setSelectedCell i st) = history st"
  "history (setSelectedCells ids st) = history st"
  "history (startDrag c st) = history st"
  "history (handleDrag c st) = history st"
  "history (endDrag st) = history st"
  "history (copySelectedCells st) = history st"
  "history (copySelection st) = history st"
  "history (fileLoaded J content st) = history st"
  by (simp_all add: setSelectedCell_def setSelectedCells_def startDrag_def handleDrag_def
      endDrag_def copySelectedCells_def copySelection_def fileLoaded_def Let_def
      split: option.splits)

lemma pasteSelection_history:
  "history (pasteSelection st) = history (saveState st) \<or>
   history (pasteSelection st) = history (saveState (saveState st))"
  by (simp add: pasteSelection_def Let_def pasteCells_history
      split: option.splits sum.splits prod.splits)

lemma cellEffect_history:
  "history (cellEffect J i st) = history st \<or> history (cellEffect J i st) = history (saveState st)"
  by (simp add: cellEffect_def Let_def split: sum.splits)

lemma perform_history:
  "history (perform J a st) = history st \<or>
   history (perform J a st) = history (saveState st) \<or>
   history (perform J a st) = history (saveState (saveState st))"
proof (cases a)
  case PasteSelection
  then show ?thesis using pasteSelection_history [of st] by auto
next
  case (CellEffect i)
  then show ?thesis using cellEffect_history [of J i st] by auto
next
  case (ClearSpreadsheet b)
  then show ?thesis by (cases b) simp_all
qed (simp_all add: pasteCells_history)

lemma history_bounded_perform:
  assumes "length (history st) \<le> MAX_HISTORY"
  shows "length (history (perform J a st)) \<le> MAX_HISTORY"
proof -
  have 1: "length (history (saveState st)) \<le> MAX_HISTORY"
    using assms by (rule saveState_length_le)
  then have 2: "length (history (saveState (saveState st))) \<le> MAX_HISTORY"
    by (rule saveState_length_le)
  from perform_history [of J a st] assms 1 2 show ?thesis by auto
qed

lemma history_bounded_run:
  "length (history st) \<le> MAX_HISTORY \<Longrightarrow> length (history (run J acts st)) \<le> MAX_HISTORY"
  unfolding run_def by (induction acts arbitrary: st) (simp_all add: history_bounded_perform)

lemma history_bounded_reachable: "length (history (run J acts initialState)) \<le> MAX_HISTORY"
  by (rule history_bounded_run) (simp add: initialState_def)

lemma undo_noop: "historyIndex st \<le> 0 \<Longrightarrow> undo st = st"
  by (simp add: undo_def)

lemma undo_step:
  assumes "0 < historyIndex st" and "historyIndex st \<le> int (length (history st))"
  shows "historyIndex (undo st) = historyIndex st - 1 \<and> history (undo st) = history st"
  using assms by (simp add: undo_def restore_def Let_def)

lemma undo_funpow:
  assumes "historyIndex st = int k" and "k \<le> length (history st)" and "j \<le> k"
  shows "historyIndex ((undo ^^ j) st) = int k - int j \<and> history ((undo ^^ j) st) = history st"
  using assms(3)
proof (induction j)
  case 0
  then show ?case using assms(1) by simp
next
  case (Suc j)
  then have ih: "historyIndex ((undo ^^ j) st) = int k - int j"
      "history ((undo ^^ j) st) = history st" by simp_all
  have "0 < historyIndex ((undo ^^ j) st)" using ih(1) Suc.prems by simp
  moreover have "historyIndex ((undo ^^ j) st) \<le> int (length (history ((undo ^^ j) st)))"
    using ih assms(2) by simp
  ultimately show ?case using undo_step [of "(undo ^^ j) st"] ih by simp
qed

lemma undo_count:
  assumes "historyIndex st = int k" and "k \<le> length (history st)"
  shows "(\<forall>j < k. undo ((undo ^^ j) st) \<noteq> (undo ^^ j) st) \<and>
         undo ((undo ^^ k) st) = (undo ^^ k) st"
proof (intro conjI allI impI)
  fix j assume "j < k"
  then have a: "historyIndex ((undo ^^ j) st) = int k - int j"
    and b: "historyIndex ((undo ^^ Suc j) st) = int k - int (Suc j)"
    using undo_funpow [OF assms, of j] undo_funpow [OF assms, of "Suc j"] by simp_all
  show "undo ((undo ^^ j) st) \<noteq> (undo ^^ j) st"
  proof
    assume "undo ((undo ^^ j) st) = (undo ^^ j) st"
    then have "historyIndex ((undo ^^ Suc j) st) = historyIndex ((undo ^^ j) st)" by simp
    with a b show False by simp
  qed
next
  have "historyIndex ((undo ^^ k) st) = 0" using undo_funpow [OF assms, of k] by simp
  then show "undo ((undo ^^ k) st) = (undo ^^ k) st" by (simp add: undo_noop)
qed

lemma redo_after_edit:
  assumes "mutating a"
  shows "redo (perform J a st) = perform J a st"
  using mutating_history [OF assms, of J st]
  by (auto simp: redo_def saveState_index)

lemma saveState_truncates:
  assumes "- 1 \<le> historyIndex st" and "historyIndex st < int (length (history st)) - 1"
    and "length (history st) \<le> MAX_HISTORY"
  shows "history (saveState st) = take (nat (historyIndex st + 1)) (history st) @ [snapshot st]"
  using assms by (auto simp: saveState_def sliceTo_def Let_def)

text \<open>
  C4, amended: after a sequence of mutating edits that exceeds the history bound
  (\<open>MAX_HISTORY = 50\<close>) or equals it, run from any reachable state, the history holds 50 snapshots and
  the index is 49; \<open>undo\<close> then changes the state exactly \<open>MAX_HISTORY - 1 = 49\<close> times
  and is a no-op from then on. After every mutating edit \<open>redo\<close> is a no-op, and
  \<open>saveState\<close>, which every edit starts with, keeps the entries up to the current index
  and drops the ones after it.
\<close>

theorem undo_after_many_edits:
  assumes "list_all mutating edits" and "MAX_HISTORY \<le> length edits"
  shows "(\<forall>j < MAX_HISTORY - 1.
            undo ((undo ^^ j) (run J edits (run J pre initialState))) \<noteq>
            (undo ^^ j) (run J edits (run J pre initialState))) \<and>
         undo ((undo ^^ (MAX_HISTORY - 1)) (run J edits (run J pre initialState))) =
           (undo ^^ (MAX_HISTORY - 1)) (run J edits (run J pre initialState)) \<and>
         (\<forall>a st. mutating a \<longrightarrow> redo (perform J a st) = perform J a st) \<and>
         (\<forall>st. - 1 \<le> historyIndex st \<and> historyIndex st < int (length (history st)) - 1 \<and>
                length (history st) \<le> MAX_HISTORY \<longrightarrow>
                history (saveState st) =
                  take (nat (historyIndex st + 1)) (history st) @ [snapshot st])"
proof -
  let ?st = "run J edits (run J pre initialState)"
  have full: "length (history ?st) = MAX_HISTORY \<and> historyIndex ?st = int MAX_HISTORY - 1"
    using assms history_bounded_reachable by (rule history_full_after_edits)
  then have "historyIndex ?st = int (MAX_HISTORY - 1)" and "MAX_HISTORY - 1 \<le> length (history ?st)"
    by (simp_all add: MAX_HISTORY_def)
  from undo_count [OF this]
  have u: "(\<forall>j < MAX_HISTORY - 1. undo ((undo ^^ j) ?st) \<noteq> (undo ^^ j) ?st)"
    and v: "undo ((undo ^^ (MAX_HISTORY - 1)) ?st) = (undo ^^ (MAX_HISTORY - 1)) ?st"
    by (rule conjunct1, rule conjunct2)
  have r: "\<forall>a st. mutating a \<longrightarrow> redo (perform J a st) = perform J a st"
    by (intro allI impI) (rule redo_after_edit)
  have t: "\<forall>st. - 1 \<le> historyIndex st \<and> historyIndex st < int (length (history st)) - 1 \<and>
                length (history st) \<le> MAX_HISTORY \<longrightarrow>
                history (saveState st) =
                  take (nat (historyIndex st + 1)) (history st) @ [snapshot st]"
    by (intro allI impI, elim conjE) (rule saveState_truncates)
  from u v r t show ?thesis by (intro conjI)
qed

text \<open>
  C4, as stated, fails: after 51 edits (here 51 times \<open>addRow\<close> from the initial state)
  the 50th \<open>undo\<close> is already a no-op, since \<open>undo\<close> returns at index 0 and the 50
  snapshots allow 49 steps back.
\<close>

theorem fiftieth_undo_counterexample:
  "undo ((undo ^^ 49) (run jsNumber (replicate 51 AddRow) initialState)) =
     (undo ^^ 49) (run jsNumber (replicate 51 AddRow) initialState)"
proof -
  let ?st = "run jsNumber (replicate 51 AddRow) initialState"
  have "list_all mutating (replicate 51 AddRow)" by (simp add: list_all_iff)
  moreover have "MAX_HISTORY \<le> length (replicate 51 AddRow)" by (simp add: MAX_HISTORY_def)
  moreover have "length (history initialState) \<le> MAX_HISTORY" by (simp add: initialState_def)
  ultimately have "length (history ?st) = MAX_HISTORY \<and> historyIndex ?st = int MAX_HISTORY - 1"
    by (rule history_full_after_edits)
  then have "historyIndex ?st = int 49" and "49 \<le> length (history ?st)"
    by (simp_all add: MAX_HISTORY_def)
  from undo_count [OF this] show ?thesis by (rule conjunct2)
qed

theorem undo_after_many_edits_witness:
  "list_all mutating (replicate 51 AddRow) \<and> MAX_HISTORY \<le> length (replicate 51 AddRow) \<and>
   undo ((undo ^^ 48) (run jsNumber (replicate 51 AddRow) (run jsNumber [] initialState))) \<noteq>
     (undo ^^ 48) (run jsNumber (replicate 51 AddRow) (run jsNumber [] initialState)) \<and>
   undo ((undo ^^ 49) (run jsNumber (replicate 51 AddRow) (run jsNumber [] initialState))) =
     (undo ^^ 49) (run jsNumber (replicate 51 AddRow) (run jsNumber [] initialState)) \<and>
   redo (perform jsNumber DeleteRow (undo (run jsNumber (replicate 51 AddRow) initialState))) =
     perform jsNumber DeleteRow (undo (run jsNumber (replicate 51 AddRow) initialState))"
proof -
  let ?st = "run jsNumber (replicate 51 AddRow) (run jsNumber [] initialState)"
  have 1: "list_all mutating (replicate 51 AddRow)" by (simp add: list_all_iff)
  have 2: "MAX_HISTORY \<le> length (replicate 51 AddRow)" by (simp add: MAX_HISTORY_def)
  have 3: "(48::nat) < MAX_HISTORY - 1" and 4: "MAX_HISTORY - 1 = 49" and 5: "mutating DeleteRow"
    by (simp_all add: MAX_HISTORY_def)
  note T = undo_after_many_edits [OF 1 2, of jsNumber "[]"]
  from T have a: "\<forall>j < MAX_HISTORY - 1. undo ((undo ^^ j) ?st) \<noteq> (undo ^^ j) ?st"
    by (rule conjunct1)
  from T have b: "undo ((undo ^^ (MAX_HISTORY - 1)) ?st) = (undo ^^ (MAX_HISTORY - 1)) ?st"
    by (rule conjunct1 [OF conjunct2])
  from T have c: "\<forall>a st. mutating a \<longrightarrow> redo (perform jsNumber a st) = perform jsNumber a st"
    by (rule conjunct1 [OF conjunct2 [OF conjunct2]])
  from a 3 have a': "undo ((undo ^^ 48) ?st) \<noteq> (undo ^^ 48) ?st" by blast
  from b have b': "undo ((undo ^^ 49) ?st) = (undo ^^ 49) ?st" by (simp only: 4)
  from c 5 have c': "redo (perform jsNumber DeleteRow (undo (run jsNumber (replicate 51 AddRow) initialState))) =
     perform jsNumber DeleteRow (undo (run jsNumber (replicate 51 AddRow) initialState))"
    by blast
  from 1 2 a' b' c' show ?thesis by (intro conjI)
qed

section \<open>The grid keeps a row and a column\<close>

lemma saveState_fields [simp]:
  "cells (saveState st) = cells st"
  "rows (saveState st) = rows st"
  "cols (saveState st) = cols st"
  "clipboard (saveState st) = clipboard st"
  "selectedCell (saveState st) = selectedCell st"
  "selectedCells (saveState st) = selectedCells st"
  by (simp_all add: saveState_def Let_def)

lemma list_all_sliceTo: "list_all P xs \<Longrightarrow> list_all P (sliceTo xs e)"
  by (auto simp: sliceTo_def Let_def list_all_iff dest: in_set_takeD)

lemma list_all_tl: "list_all P xs \<Longrightarrow> list_all P (tl xs)"
  by (cases xs) simp_all

lemma saveState_history_all:
  assumes "list_all P (history st)" and "P (snapshot st)"
  shows "list_all P (history (saveState st))"
  using assms by (simp add: saveState_def Let_def list_all_sliceTo list_all_tl)

lemma saveState_history_ok:
  "1 \<le> rows st \<Longrightarrow> 1 \<le> cols st \<Longrightarrow>
   list_all (\<lambda>h. 1 \<le> h_rows h \<and> 1 \<le> h_cols h) (history st) \<Longrightarrow>
   list_all (\<lambda>h. 1 \<le> h_rows h \<and> 1 \<le> h_cols h) (history (saveState st))"
  by (rule saveState_history_all) (simp_all add: snapshot_def)

lemma gridOk_saveState: "gridOk st \<Longrightarrow> gridOk (saveState st)"
  by (simp add: gridOk_def saveState_history_ok)

lemma gridOk_restore: "gridOk st \<Longrightarrow> gridOk (restore st n)"
  by (auto simp: gridOk_def restore_def Let_def list_all_length)

lemma gridOk_undo: "gridOk st \<Longrightarrow> gridOk (undo st)"
  by (simp add: undo_def gridOk_restore)

lemma gridOk_redo: "gridOk st \<Longrightarrow> gridOk (redo st)"
  by (simp add: redo_def gridOk_restore)

lemma gridOk_rows_cols:
  "gridOk st \<Longrightarrow> gridOk (addRow st) \<and> gridOk (deleteRow st) \<and>
     gridOk (addColumn st) \<and> gridOk (deleteColumn st)"
  by (simp add: gridOk_def addRow_def deleteRow_def addColumn_def deleteColumn_def Let_def
      saveState_history_ok)

lemma gridOk_updateCell: "gridOk st \<Longrightarrow> gridOk (updateCell i d st)"
  by (simp add: gridOk_def updateCell_def Let_def saveState_history_ok)

lemma gridOk_selection:
  "gridOk (setSelectedCell i st) = gridOk st"
  "gridOk (setSelectedCells ids st) = gridOk st"
  "gridOk (startDrag c st) = gridOk st"
  "gridOk (handleDrag c st) = gridOk st"
  "gridOk (endDrag st) = gridOk st"
  "gridOk (copySelectedCells st) = gridOk st"
  "gridOk (copySelection st) = gridOk st"
  by (simp_all add: gridOk_def setSelectedCell_def setSelectedCells_def startDrag_def
      handleDrag_def endDrag_def copySelectedCells_def copySelection_def
      split: option.splits)

lemma gridOk_pasteCells: "gridOk st \<Longrightarrow> gridOk (pasteCells t st)"
  by (simp add: gridOk_def pasteCells_def Let_def saveState_history_ok split: option.splits)

lemma gridOk_cutSelection: "gridOk st \<Longrightarrow> gridOk (cutSelection st)"
  by (simp add: gridOk_def cutSelection_def Let_def saveState_history_ok split: option.splits)

lemma gridOk_pasteSelection: "gridOk st \<Longrightarrow> gridOk (pasteSelection st)"
proof -
  assume "gridOk st"
  then have s1: "gridOk (saveState st)" by (rule gridOk_saveState)
  have upd: "\<And>c. gridOk (saveState st\<lparr>cells := c\<rparr>)"
    using s1 by (simp add: gridOk_def)
  show ?thesis
    unfolding pasteSelection_def Let_def
    by (simp add: s1 upd gridOk_pasteCells split: option.splits sum.splits prod.splits)
qed

lemma gridOk_fileLoaded: "gridOk st \<Longrightarrow> gridOk (fileLoaded J content st)"
  by (simp add: fileLoaded_def Let_def gridOk_def le_max_iff_disj)

lemma gridOk_clearSpreadsheet: "gridOk st \<Longrightarrow> gridOk (clearSpreadsheet b st)"
  by (simp add: gridOk_def clearSpreadsheet_def Let_def saveState_history_ok)

lemma gridOk_cellEffect: "gridOk st \<Longrightarrow> gridOk (cellEffect J i st)"
  by (simp add: cellEffect_def Let_def gridOk_updateCell split: sum.splits)

lemma gridOk_perform: "gridOk st \<Longrightarrow> gridOk (perform J a st)"
  by (cases a)
     (simp_all add: gridOk_saveState gridOk_undo gridOk_redo gridOk_rows_cols gridOk_updateCell
        gridOk_selection gridOk_pasteCells gridOk_cutSelection gridOk_pasteSelection
        gridOk_fileLoaded gridOk_clearSpreadsheet gridOk_cellEffect importFromCSV_def)

lemma gridOk_run: "gridOk st \<Longrightarrow> gridOk (run J acts st)"
  unfolding run_def by (induction acts arbitrary: st) (simp_all add: gridOk_perform)

lemma gridOk_initialState: "gridOk initialState"
  by (simp add: gridOk_def initialState_def DEFAULT_ROWS_def DEFAULT_COLS_def)

text \<open>
  C9: starting from the default state, after every sequence of operations of the store
  (and of re-evaluations of cells) the grid has at least one row and one column.
\<close>

theorem grid_dimensions_positive:
  "1 \<le> rows (run J acts initialState) \<and> 1 \<le> cols (run J acts initialState)"
  using gridOk_run [OF gridOk_initialState, of J acts] by (simp add: gridOk_def)


section \<open>Copy and paste\<close>

lemma pasteEntry_alt:
  "pasteEntry nc nr co ro e m =
     (if pasteInBounds nc nr co ro (fst e) then m(pasteDestination co ro (fst e) \<mapsto> snd e) else m)"
  by (auto simp: pasteEntry_def pasteInBounds_def pasteDestination_def Let_def)

lemma fold_pasteEntry_frame:
  "list_all (\<lambda>e. pasteInBounds nc nr co ro (fst e) \<longrightarrow> pasteDestination co ro (fst e) \<noteq> k) es \<Longrightarrow>
   fold (pasteEntry nc nr co ro) es m k = m k"
  by (induction es arbitrary: m) (auto simp: pasteEntry_alt)

lemma fold_pasteEntry_write:
  assumes "distinct (map (\<lambda>e. pasteDestination co ro (fst e)) es)"
    and "(i, c) \<in> set es" and "pasteInBounds nc nr co ro i"
  shows "fold (pasteEntry nc nr co ro) es m (pasteDestination co ro i) = Some c"
  using assms
proof (induction es arbitrary: m)
  case Nil
  then show ?case by simp
next
  case (Cons e es)
  show ?case
  proof (cases "e = (i, c)")
    case True
    with Cons.prems(1) have "pasteDestination co ro i \<notin> (\<lambda>e. pasteDestination co ro (fst e)) ` set es"
      by simp
    then have "list_all (\<lambda>e'. pasteInBounds nc nr co ro (fst e') \<longrightarrow>
        pasteDestination co ro (fst e') \<noteq> pasteDestination co ro i) es"
      unfolding list_all_iff by (metis imageI)
    then have "fold (pasteEntry nc nr co ro) es (pasteEntry nc nr co ro e m) (pasteDestination co ro i)
        = pasteEntry nc nr co ro e m (pasteDestination co ro i)"
      by (rule fold_pasteEntry_frame)
    moreover have "pasteEntry nc nr co ro e m (pasteDestination co ro i) = Some c"
      using True Cons.prems(3) by (simp add: pasteEntry_alt)
    ultimately show ?thesis by simp
  next
    case False
    with Cons.prems have "(i, c) \<in> set es" "distinct (map (\<lambda>e. pasteDestination co ro (fst e)) es)"
      by simp_all
    with Cons.IH Cons.prems(3) show ?thesis by simp
  qed
qed

lemma pasteCells_grid:
  "rows (pasteCells t st) = rows st \<and> cols (pasteCells t st) = cols st \<and>
   clipboard (pasteCells t st) = clipboard st"
  by (simp add: pasteCells_def Let_def saveState_def split: option.splits)

lemma pasteCells_cells:
  assumes "clipboard st = Some cb"
  shows "cells (pasteCells t st) =
           fold (pasteEntry (cols st) (rows st)
                   (cellCol t - cellCol (topLeft cb)) (cellRow t - cellRow (topLeft cb)))
                (clip_cells cb) (cells st)"
  using assms by (simp add: pasteCells_def Let_def saveState_def)

text \<open>
  What \<open>pasteCells\<close> does with a snapshot whose entries have distinct destinations:
  the grid keeps its size, every entry whose destination lies inside the grid is
  written there, destinations outside are skipped, and every other cell is as before.
\<close>

lemma pasteCells_writes_and_frames:
  assumes "clipboard st = Some cb"
    and "colOffset = cellCol t - cellCol (topLeft cb)"
    and "rowOffset = cellRow t - cellRow (topLeft cb)"
    and "distinct (map (\<lambda>e. pasteDestination colOffset rowOffset (fst e)) (clip_cells cb))"
  shows "rows (pasteCells t st) = rows st \<and> cols (pasteCells t st) = cols st \<and>
         (\<forall>i c. (i, c) \<in> set (clip_cells cb) \<and>
                 pasteInBounds (cols st) (rows st) colOffset rowOffset i \<longrightarrow>
                 cells (pasteCells t st) (pasteDestination colOffset rowOffset i) = Some c) \<and>
         (\<forall>k. list_all (\<lambda>e. pasteInBounds (cols st) (rows st) colOffset rowOffset (fst e) \<longrightarrow>
                            pasteDestination colOffset rowOffset (fst e) \<noteq> k) (clip_cells cb) \<longrightarrow>
              cells (pasteCells t st) k = cells st k)"
proof -
  have c: "cells (pasteCells t st) =
      fold (pasteEntry (cols st) (rows st) colOffset rowOffset) (clip_cells cb) (cells st)"
    using assms(1-3) by (simp add: pasteCells_cells)
  show ?thesis
    using assms(4)
    by (auto simp: c pasteCells_grid fold_pasteEntry_write fold_pasteEntry_frame)
qed

text \<open>
  C5: the snapshot of \<open>copySelectedCells\<close> leaves out the selected cells that were never
  written, so \<open>pasteCells\<close> does not touch their destinations. On the sheet with
  A1 = x and E5 = old, selecting A1:B2, copying and pasting at D4 writes D4 and leaves
  E5 as it was, although its source B2 is empty.
\<close>

theorem paste_leaves_stale_cell:
  "selectedCells (run jsNumber
      [UpdateCell ''A1'' (valueUpdate ''x''), UpdateCell ''E5'' (valueUpdate ''old''),
       SetSelectedCells (getSelectionBetween ''A1'' ''B2'')] initialState) =
     [''A1'', ''B1'', ''A2'', ''B2''] \<and>
   cells (run jsNumber
      [UpdateCell ''A1'' (valueUpdate ''x''), UpdateCell ''E5'' (valueUpdate ''old''),
       SetSelectedCells (getSelectionBetween ''A1'' ''B2''), CopySelectedCells, PasteCells ''D4'']
      initialState) ''B2'' = None \<and>
   cells (run jsNumber
      [UpdateCell ''A1'' (valueUpdate ''x''), UpdateCell ''E5'' (valueUpdate ''old''),
       SetSelectedCells (getSelectionBetween ''A1'' ''B2''), CopySelectedCells, PasteCells ''D4'']
      initialState) ''E5'' = Some (textCell ''old'') \<and>
   cells (run jsNumber
      [UpdateCell ''A1'' (valueUpdate ''x''), UpdateCell ''E5'' (valueUpdate ''old''),
       SetSelectedCells (getSelectionBetween ''A1'' ''B2''), CopySelectedCells, PasteCells ''D4'']
      initialState) ''D4'' = Some (textCell ''x'')"
  by code_simp

section \<open>Recalculation\<close>












end
